theory Spec2Isabelle
  imports Complex_Main
begin

section \<open>Numbers\<close>

text \<open>
  The source is TypeScript; every quantity is a \<^verbatim>\<open>number\<close>. The embedding reads a
  \<^verbatim>\<open>number\<close> as a real: the rounding of double-precision arithmetic is outside the
  model throughout. Overflow to \<^verbatim>\<open>Infinity\<close> and \<^verbatim>\<open>NaN\<close> are outside this first
  reading too; a second reading of the comparison, further down, adds them. Ages and
  horizons are \<^verbatim>\<open>number\<close>s as well (the form fields convert with
  \<^verbatim>\<open>Number(e.target.value)\<close>), so they are reals here and may be fractional or negative.

  \<^verbatim>\<open>Math.pow(b, e)\<close> is only ever called with a base \<open>1 + rate\<close> for a rate that is
  a positive constant or has passed the check \<open>annualRate \<ge> 0\<close>. On a positive base it is
  the real power \<open>b powr e\<close>.
\<close>

definition Math_pow :: "real \<Rightarrow> real \<Rightarrow> real" where
  "Math_pow b e = b powr e"

section \<open>The compound-interest helper \<^verbatim>\<open>calculateFutureValue\<close>\<close>

text \<open>
  \<^verbatim>\<open>
  const calculateFutureValue = useCallback((monthlyPayment, annualRate, years) => {
    try {
      if (monthlyPayment < 0 || annualRate < 0 || years < 0) {
        throw new Error('Values must be non-negative');
      }
      if (years > 100) {
        throw new Error('Investment period too long');
      }
      const monthlyRate = annualRate / 12;
      const totalMonths = years * 12;
      if (monthlyRate === 0) return monthlyPayment * totalMonths;
      return monthlyPayment * ((Math.pow(1 + monthlyRate, totalMonths) - 1) / monthlyRate);
    } catch (error) {
      console.error('Calculation error:', error);
      return 0;
    }
  }, []);
  \<close>
  The body of the \<^verbatim>\<open>try\<close> block is \<open>calculateFutureValue_try\<close>: it either throws
  (\<open>Inl\<close>) or returns a number (\<open>Inr\<close>). The function itself wraps that block in the
  \<^verbatim>\<open>catch\<close> handler, which turns every thrown error into the number 0; its result is
  always a number, as its TypeScript type says. \<open>calculateFutureValue_console\<close> is what
  the handler writes to the console.
\<close>

datatype js_error = Error string

definition calculateFutureValue_try :: "real \<Rightarrow> real \<Rightarrow> real \<Rightarrow> js_error + real" where
  "calculateFutureValue_try monthlyPayment annualRate yrs =
     (if monthlyPayment < 0 \<or> annualRate < 0 \<or> yrs < 0
      then Inl (Error ''Values must be non-negative'')
      else if yrs > 100
      then Inl (Error ''Investment period too long'')
      else
        let monthlyRate = annualRate / 12;
            totalMonths = yrs * 12
        in if monthlyRate = 0 then Inr (monthlyPayment * totalMonths)
           else Inr (monthlyPayment * ((Math_pow (1 + monthlyRate) totalMonths - 1) / monthlyRate)))"

definition calculateFutureValue :: "real \<Rightarrow> real \<Rightarrow> real \<Rightarrow> real" where
  "calculateFutureValue monthlyPayment annualRate yrs =
     (case calculateFutureValue_try monthlyPayment annualRate yrs of
        Inl error \<Rightarrow> 0
      | Inr v \<Rightarrow> v)"

definition calculateFutureValue_console :: "real \<Rightarrow> real \<Rightarrow> real \<Rightarrow> (string \<times> js_error) list" where
  "calculateFutureValue_console monthlyPayment annualRate yrs =
     (case calculateFutureValue_try monthlyPayment annualRate yrs of
        Inl error \<Rightarrow> [(''Calculation error:'', error)]
      | Inr v \<Rightarrow> [])"

section \<open>The three-vehicle comparison of \<^verbatim>\<open>DebekaComparison.tsx\<close>\<close>

record ComparisonInputs =
  currentAge :: real
  monthlyContribution :: real
  currentAssets :: real
  retirementAge :: real

record VehicleResult =
  finalCapital :: real
  monthlyPension :: real
  grossMonthlyPension :: real
  totalTax :: real
  netReturn :: real
  taxRate :: real

record ComparisonResult =
  debeka :: VehicleResult
  etf :: VehicleResult
  klassisch :: VehicleResult
  taxAdvantage :: real
  totalContributions :: real
  years :: real

text \<open>
  The page keeps its inputs in \<^verbatim>\<open>ComparisonInputs\<close> and computes the whole comparison in
  one \<^verbatim>\<open>useMemo\<close> callback, which contains no check of its inputs and no \<^verbatim>\<open>throw\<close>:
  \<^verbatim>\<open>
  const comparison = useMemo(() => {
    const years = inputs.retirementAge - inputs.currentAge;
    const months = years * 12;
    const totalContributions = inputs.monthlyContribution * months + inputs.currentAssets;

    const debekaGrowthRate = 0.06;
    const debekaCosts = 0.013;
    const debekaNetGrowth = debekaGrowthRate - debekaCosts;
    const debekaMonthlyReturn = debekaNetGrowth / 12;
    const debekaFutureValue =
      inputs.currentAssets * Math.pow(1 + debekaNetGrowth, years) +
      inputs.monthlyContribution *
        ((Math.pow(1 + debekaMonthlyReturn, months) - 1) / debekaMonthlyReturn);
    const debekaErtragsanteil = 0.17;
    const debekaGrossMonthlyPension = (debekaFutureValue * 0.04) / 12;
    const debekaTaxableAmount = debekaGrossMonthlyPension * debekaErtragsanteil;
    const debekaTax = debekaTaxableAmount * 0.25;
    const debekaNetMonthlyPension = debekaGrossMonthlyPension - debekaTax;

    const etfGrowthRate = 0.07;
    const etfCosts = 0.003;
    const etfGrossReturn = etfGrowthRate - etfCosts;
    const abgeltungssteuer = 0.26375;
    const etfAnnualGains = etfGrossReturn;
    const etfTaxOnGains = etfAnnualGains * abgeltungssteuer;
    const etfNetGrowth = etfGrossReturn - etfTaxOnGains;
    const etfMonthlyReturn = etfNetGrowth / 12;
    const etfFutureValue =
      inputs.currentAssets * Math.pow(1 + etfNetGrowth, years) +
      inputs.monthlyContribution *
        ((Math.pow(1 + etfMonthlyReturn, months) - 1) / etfMonthlyReturn);
    const etfNetMonthlyPension = (etfFutureValue * 0.04) / 12;

    const klassischGrowthRate = 0.02;
    const klassischCosts = 0.01;
    const klassischNetGrowth = klassischGrowthRate - klassischCosts;
    const klassischMonthlyReturn = klassischNetGrowth / 12;
    const klassischFutureValue =
      inputs.currentAssets * Math.pow(1 + klassischNetGrowth, years) +
      inputs.monthlyContribution *
        ((Math.pow(1 + klassischMonthlyReturn, months) - 1) / klassischMonthlyReturn);
    const klassischGrossMonthlyPension = (klassischFutureValue * 0.04) / 12;
    const klassischTaxableAmount = klassischGrossMonthlyPension * debekaErtragsanteil;
    const klassischTax = klassischTaxableAmount * 0.25;
    const klassischNetMonthlyPension = klassischGrossMonthlyPension - klassischTax;

    const retirementYears = 20;
    const debeka30YearTax = debekaTax * 12 * retirementYears;
    const etfTaxDuringAccumulation =
      inputs.monthlyContribution * 12 * years * etfTaxOnGains / etfGrossReturn;
    const totalEtfTax = etfTaxDuringAccumulation;
    const taxAdvantage = totalEtfTax - debeka30YearTax;

    return { debeka: {...}, etf: {...}, klassisch: {...},
             taxAdvantage, totalContributions, years };
  }, [inputs]);
  \<close>
  Each \<^verbatim>\<open>const\<close> is a definition of the same name below: a constant where it takes no
  input, a function of the inputs otherwise. The locals \<^verbatim>\<open>years\<close>, \<^verbatim>\<open>months\<close>,
  \<^verbatim>\<open>totalContributions\<close> and \<^verbatim>\<open>taxAdvantage\<close> carry the suffix \<open>_of\<close>, since the result
  record has fields of those names.
\<close>

subsection \<open>Constants of the \<^verbatim>\<open>useMemo\<close> callback\<close>

definition debekaGrowthRate :: real where "debekaGrowthRate = 0.06"
definition debekaCosts :: real where "debekaCosts = 0.013"
definition debekaNetGrowth :: real where "debekaNetGrowth = debekaGrowthRate - debekaCosts"
definition debekaMonthlyReturn :: real where "debekaMonthlyReturn = debekaNetGrowth / 12"
definition debekaErtragsanteil :: real where "debekaErtragsanteil = 0.17"

definition etfGrowthRate :: real where "etfGrowthRate = 0.07"
definition etfCosts :: real where "etfCosts = 0.003"
definition etfGrossReturn :: real where "etfGrossReturn = etfGrowthRate - etfCosts"
definition abgeltungssteuer :: real where "abgeltungssteuer = 0.26375"
definition etfAnnualGains :: real where "etfAnnualGains = etfGrossReturn"
definition etfTaxOnGains :: real where "etfTaxOnGains = etfAnnualGains * abgeltungssteuer"
definition etfNetGrowth :: real where "etfNetGrowth = etfGrossReturn - etfTaxOnGains"
definition etfMonthlyReturn :: real where "etfMonthlyReturn = etfNetGrowth / 12"

definition klassischGrowthRate :: real where "klassischGrowthRate = 0.02"
definition klassischCosts :: real where "klassischCosts = 0.01"
definition klassischNetGrowth :: real where "klassischNetGrowth = klassischGrowthRate - klassischCosts"
definition klassischMonthlyReturn :: real where "klassischMonthlyReturn = klassischNetGrowth / 12"

definition retirementYears :: real where "retirementYears = 20"

subsection \<open>Quantities computed from the inputs\<close>

definition years_of :: "ComparisonInputs \<Rightarrow> real" where
  "years_of inputs = retirementAge inputs - currentAge inputs"

definition months_of :: "ComparisonInputs \<Rightarrow> real" where
  "months_of inputs = years_of inputs * 12"

definition totalContributions_of :: "ComparisonInputs \<Rightarrow> real" where
  "totalContributions_of inputs =
     monthlyContribution inputs * months_of inputs + currentAssets inputs"

definition debekaFutureValue :: "ComparisonInputs \<Rightarrow> real" where
  "debekaFutureValue inputs =
     currentAssets inputs * Math_pow (1 + debekaNetGrowth) (years_of inputs) +
     monthlyContribution inputs *
       ((Math_pow (1 + debekaMonthlyReturn) (months_of inputs) - 1) / debekaMonthlyReturn)"

definition debekaGrossMonthlyPension :: "ComparisonInputs \<Rightarrow> real" where
  "debekaGrossMonthlyPension inputs = (debekaFutureValue inputs * 0.04) / 12"

definition debekaTaxableAmount :: "ComparisonInputs \<Rightarrow> real" where
  "debekaTaxableAmount inputs = debekaGrossMonthlyPension inputs * debekaErtragsanteil"

definition debekaTax :: "ComparisonInputs \<Rightarrow> real" where
  "debekaTax inputs = debekaTaxableAmount inputs * 0.25"

definition debekaNetMonthlyPension :: "ComparisonInputs \<Rightarrow> real" where
  "debekaNetMonthlyPension inputs = debekaGrossMonthlyPension inputs - debekaTax inputs"

definition etfFutureValue :: "ComparisonInputs \<Rightarrow> real" where
  "etfFutureValue inputs =
     currentAssets inputs * Math_pow (1 + etfNetGrowth) (years_of inputs) +
     monthlyContribution inputs *
       ((Math_pow (1 + etfMonthlyReturn) (months_of inputs) - 1) / etfMonthlyReturn)"

definition etfNetMonthlyPension :: "ComparisonInputs \<Rightarrow> real" where
  "etfNetMonthlyPension inputs = (etfFutureValue inputs * 0.04) / 12"

definition klassischFutureValue :: "ComparisonInputs \<Rightarrow> real" where
  "klassischFutureValue inputs =
     currentAssets inputs * Math_pow (1 + klassischNetGrowth) (years_of inputs) +
     monthlyContribution inputs *
       ((Math_pow (1 + klassischMonthlyReturn) (months_of inputs) - 1) / klassischMonthlyReturn)"

definition klassischGrossMonthlyPension :: "ComparisonInputs \<Rightarrow> real" where
  "klassischGrossMonthlyPension inputs = (klassischFutureValue inputs * 0.04) / 12"

definition klassischTaxableAmount :: "ComparisonInputs \<Rightarrow> real" where
  "klassischTaxableAmount inputs = klassischGrossMonthlyPension inputs * debekaErtragsanteil"

definition klassischTax :: "ComparisonInputs \<Rightarrow> real" where
  "klassischTax inputs = klassischTaxableAmount inputs * 0.25"

definition klassischNetMonthlyPension :: "ComparisonInputs \<Rightarrow> real" where
  "klassischNetMonthlyPension inputs = klassischGrossMonthlyPension inputs - klassischTax inputs"

definition debeka30YearTax :: "ComparisonInputs \<Rightarrow> real" where
  "debeka30YearTax inputs = debekaTax inputs * 12 * retirementYears"

definition etfTaxDuringAccumulation :: "ComparisonInputs \<Rightarrow> real" where
  "etfTaxDuringAccumulation inputs =
     monthlyContribution inputs * 12 * years_of inputs * etfTaxOnGains / etfGrossReturn"

definition totalEtfTax :: "ComparisonInputs \<Rightarrow> real" where
  "totalEtfTax inputs = etfTaxDuringAccumulation inputs"

definition taxAdvantage_of :: "ComparisonInputs \<Rightarrow> real" where
  "taxAdvantage_of inputs = totalEtfTax inputs - debeka30YearTax inputs"

subsection \<open>The object returned by the callback\<close>

definition comparison :: "ComparisonInputs \<Rightarrow> ComparisonResult" where
  "comparison inputs =
     \<lparr> debeka =
         \<lparr> finalCapital = debekaFutureValue inputs,
           monthlyPension = debekaNetMonthlyPension inputs,
           grossMonthlyPension = debekaGrossMonthlyPension inputs,
           totalTax = debeka30YearTax inputs,
           netReturn = debekaNetGrowth * 100,
           taxRate = debekaErtragsanteil * 100 \<rparr>,
       etf =
         \<lparr> finalCapital = etfFutureValue inputs,
           monthlyPension = etfNetMonthlyPension inputs,
           grossMonthlyPension = etfNetMonthlyPension inputs,
           totalTax = totalEtfTax inputs,
           netReturn = etfNetGrowth * 100,
           taxRate = abgeltungssteuer * 100 \<rparr>,
       klassisch =
         \<lparr> finalCapital = klassischFutureValue inputs,
           monthlyPension = klassischNetMonthlyPension inputs,
           grossMonthlyPension = klassischGrossMonthlyPension inputs,
           totalTax = klassischTax inputs * 12 * retirementYears,
           netReturn = klassischNetGrowth * 100,
           taxRate = debekaErtragsanteil * 100 \<rparr>,
       taxAdvantage = taxAdvantage_of inputs,
       totalContributions = totalContributions_of inputs,
       years = years_of inputs \<rparr>"

subsection \<open>Choosing the winner\<close>

text \<open>
  \<^verbatim>\<open>
  const winner = comparison.debeka.monthlyPension > comparison.etf.monthlyPension &&
                 comparison.debeka.monthlyPension > comparison.klassisch.monthlyPension
    ? 'debeka'
    : comparison.etf.monthlyPension > comparison.klassisch.monthlyPension
    ? 'etf'
    : 'klassisch';
  \<close>
  The three string literals are the constructors of \<open>Vehicle\<close>; \<open>vehicles\<close> lists them in
  the order in which the page names and renders them.
\<close>

datatype Vehicle = Debeka | ETF | Klassisch


fun vehicleResult :: "ComparisonResult \<Rightarrow> Vehicle \<Rightarrow> VehicleResult" where
  "vehicleResult c Debeka = debeka c"
| "vehicleResult c ETF = etf c"
| "vehicleResult c Klassisch = klassisch c"


subsection \<open>What the page shows of the tax advantage\<close>

text \<open>
  Every amount on the page goes through
  \<^verbatim>\<open>
  const formatCurrency = (value: number) => {
    return new Intl.NumberFormat(language === 'de' ? 'de-DE' : 'en-US', {
      style: 'currency',
      currency: 'EUR',
      maximumFractionDigits: 0,
    }).format(value);
  };
  \<close>
  With no fraction digits the text shows the magnitude rounded to whole euros, a half
  rounded away from zero (the default rounding mode of \<^verbatim>\<open>Intl.NumberFormat\<close>), and a
  minus sign for every negative value, also for one that rounds to zero.
  \<open>CurrencyText\<close> keeps those two parts of the text; digit grouping and the place of
  the euro sign, which depend on the language, are left out.

  The alert card is rendered under the guard \<^verbatim>\<open>comparison.taxAdvantage > 0 && (...)\<close> and
  shows \<^verbatim>\<open>formatCurrency(comparison.taxAdvantage)\<close>: \<open>None\<close> is "no card". The closing
  call-to-action paragraph interpolates \<^verbatim>\<open>formatCurrency(comparison.taxAdvantage)\<close> with
  no guard.
\<close>

record CurrencyText =
  minusSign :: bool
  wholeEuros :: nat

definition formatCurrency :: "real \<Rightarrow> CurrencyText" where
  "formatCurrency v = \<lparr> minusSign = (v < 0), wholeEuros = nat \<lfloor>\<bar>v\<bar> + 1 / 2\<rfloor> \<rparr>"

definition taxAdvantageAlert :: "ComparisonResult \<Rightarrow> CurrencyText option" where
  "taxAdvantageAlert c =
     (if taxAdvantage c > 0 then Some (formatCurrency (taxAdvantage c)) else None)"

definition ctaTaxSavings :: "ComparisonResult \<Rightarrow> CurrencyText" where
  "ctaTaxSavings c = formatCurrency (taxAdvantage c)"

subsection \<open>Auxiliary notions used to state the properties\<close>



text \<open>
  The specification's wording for the total tax of a vehicle under annual capital-gains
  tax, written down as it reads and kept apart from the code: a running sum over the
  years of accumulation of that year's gain times the tax rate. The gain of a year is
  the gross annual return on the capital invested at its start; the capital then grows
  by the gain net of tax and by twelve monthly contributions.
\<close>

fun spec_runningGainsTax :: "real \<Rightarrow> real \<Rightarrow> real \<Rightarrow> real \<Rightarrow> nat \<Rightarrow> real" where
  "spec_runningGainsTax capital contribution grossAnnualReturn rate 0 = 0"
| "spec_runningGainsTax capital contribution grossAnnualReturn rate (Suc n) =
     (let gain = capital * grossAnnualReturn;
          tax = gain * rate
      in tax + spec_runningGainsTax (capital + gain - tax + contribution * 12)
                 contribution grossAnnualReturn rate n)"

section \<open>The comparison on numbers that can overflow\<close>

text \<open>
  A real number never overflows, so the reading above cannot say whether a result is
  \<^verbatim>\<open>Infinity\<close> or \<^verbatim>\<open>NaN\<close>. This section reads the same callback a second time, on
  \<open>jsnum\<close>: a finite number, \<^verbatim>\<open>Infinity\<close>, \<^verbatim>\<open>-Infinity\<close> or \<^verbatim>\<open>NaN\<close>. An operation on
  finite numbers whose exact result has magnitude \<open>2^1024\<close> or more gives an infinity
  (every such result overflows a double); the operations on infinities and \<^verbatim>\<open>NaN\<close> are
  those of IEEE 754 as JavaScript has them, for instance \<open>0 * Infinity = NaN\<close> and
  \<open>Infinity - Infinity = NaN\<close>, and a division by zero gives an infinity or \<^verbatim>\<open>NaN\<close>.
  Still outside the model: the rounding of a finite result (also the rounding up to
  \<^verbatim>\<open>Infinity\<close> just below \<open>2^1024\<close>), underflow, and the sign of zero (every zero is
  \<open>+0\<close>).
\<close>

datatype jsnum = Finite real | PosInfinity | NegInfinity | NaN

definition overflow_bound :: real where
  "overflow_bound = 2 ^ 1024"

definition js_number :: "real \<Rightarrow> jsnum" where
  "js_number x =
     (if overflow_bound \<le> x then PosInfinity
      else if x \<le> - overflow_bound then NegInfinity
      else Finite x)"

fun js_neg :: "jsnum \<Rightarrow> jsnum" where
  "js_neg (Finite x) = Finite (- x)"
| "js_neg PosInfinity = NegInfinity"
| "js_neg NegInfinity = PosInfinity"
| "js_neg NaN = NaN"

fun js_add :: "jsnum \<Rightarrow> jsnum \<Rightarrow> jsnum" where
  "js_add NaN b = NaN"
| "js_add a NaN = NaN"
| "js_add (Finite x) (Finite y) = js_number (x + y)"
| "js_add PosInfinity NegInfinity = NaN"
| "js_add NegInfinity PosInfinity = NaN"
| "js_add PosInfinity b = PosInfinity"
| "js_add a PosInfinity = PosInfinity"
| "js_add NegInfinity b = NegInfinity"
| "js_add a NegInfinity = NegInfinity"

definition js_sub :: "jsnum \<Rightarrow> jsnum \<Rightarrow> jsnum" where
  "js_sub a b = js_add a (js_neg b)"

fun js_mul :: "jsnum \<Rightarrow> jsnum \<Rightarrow> jsnum" where
  "js_mul NaN b = NaN"
| "js_mul a NaN = NaN"
| "js_mul (Finite x) (Finite y) = js_number (x * y)"
| "js_mul (Finite x) PosInfinity =
     (if x = 0 then NaN else if 0 < x then PosInfinity else NegInfinity)"
| "js_mul (Finite x) NegInfinity =
     (if x = 0 then NaN else if 0 < x then NegInfinity else PosInfinity)"
| "js_mul PosInfinity (Finite y) =
     (if y = 0 then NaN else if 0 < y then PosInfinity else NegInfinity)"
| "js_mul NegInfinity (Finite y) =
     (if y = 0 then NaN else if 0 < y then NegInfinity else PosInfinity)"
| "js_mul PosInfinity PosInfinity = PosInfinity"
| "js_mul PosInfinity NegInfinity = NegInfinity"
| "js_mul NegInfinity PosInfinity = NegInfinity"
| "js_mul NegInfinity NegInfinity = PosInfinity"

fun js_div :: "jsnum \<Rightarrow> jsnum \<Rightarrow> jsnum" where
  "js_div NaN b = NaN"
| "js_div a NaN = NaN"
| "js_div (Finite x) (Finite y) =
     (if y = 0 then (if x = 0 then NaN else if 0 < x then PosInfinity else NegInfinity)
      else js_number (x / y))"
| "js_div (Finite x) PosInfinity = Finite 0"
| "js_div (Finite x) NegInfinity = Finite 0"
| "js_div PosInfinity (Finite y) = (if 0 \<le> y then PosInfinity else NegInfinity)"
| "js_div NegInfinity (Finite y) = (if 0 \<le> y then NegInfinity else PosInfinity)"
| "js_div PosInfinity PosInfinity = NaN"
| "js_div PosInfinity NegInfinity = NaN"
| "js_div NegInfinity PosInfinity = NaN"
| "js_div NegInfinity NegInfinity = NaN"

text \<open>
  \<^verbatim>\<open>Math.pow\<close> follows the cases of ECMAScript's \<^verbatim>\<open>Number::exponentiate\<close>: a \<^verbatim>\<open>NaN\<close>
  exponent, a zero exponent, a \<^verbatim>\<open>NaN\<close> base, the infinite bases, the zero base, the
  infinite exponents, a negative base with a fractional exponent, and otherwise the
  power itself.
\<close>

definition odd_integer :: "real \<Rightarrow> bool" where
  "odd_integer e = (e = of_int \<lfloor>e\<rfloor> \<and> odd \<lfloor>e\<rfloor>)"

fun Math_pow_js :: "jsnum \<Rightarrow> jsnum \<Rightarrow> jsnum" where
  "Math_pow_js b NaN = NaN"
| "Math_pow_js NaN (Finite e) = (if e = 0 then Finite 1 else NaN)"
| "Math_pow_js NaN PosInfinity = NaN"
| "Math_pow_js NaN NegInfinity = NaN"
| "Math_pow_js PosInfinity (Finite e) =
     (if e = 0 then Finite 1 else if 0 < e then PosInfinity else Finite 0)"
| "Math_pow_js PosInfinity PosInfinity = PosInfinity"
| "Math_pow_js PosInfinity NegInfinity = Finite 0"
| "Math_pow_js NegInfinity (Finite e) =
     (if e = 0 then Finite 1
      else if 0 < e then (if odd_integer e then NegInfinity else PosInfinity)
      else Finite 0)"
| "Math_pow_js NegInfinity PosInfinity = PosInfinity"
| "Math_pow_js NegInfinity NegInfinity = Finite 0"
| "Math_pow_js (Finite b) PosInfinity =
     (if 1 < \<bar>b\<bar> then PosInfinity else if \<bar>b\<bar> = 1 then NaN else Finite 0)"
| "Math_pow_js (Finite b) NegInfinity =
     (if 1 < \<bar>b\<bar> then Finite 0 else if \<bar>b\<bar> = 1 then NaN else PosInfinity)"
| "Math_pow_js (Finite b) (Finite e) =
     (if e = 0 then Finite 1
      else if 0 < b then js_number (b powr e)
      else if b = 0 then (if 0 < e then Finite 0 else PosInfinity)
      else if e = of_int \<lfloor>e\<rfloor>
      then (if even \<lfloor>e\<rfloor> then js_number (\<bar>b\<bar> powr e) else js_number (- (\<bar>b\<bar> powr e)))
      else NaN)"

subsection \<open>The callback\<close>

text \<open>
  The same \<^verbatim>\<open>const\<close>s as before, with the suffix \<open>_js\<close>, each operator replaced by its
  \<open>jsnum\<close> operation in JavaScript's order of evaluation. The inputs are finite numbers;
  the literals are the constants defined above.
\<close>

definition debekaNetGrowth_js :: jsnum where
  "debekaNetGrowth_js = js_sub (Finite debekaGrowthRate) (Finite debekaCosts)"
definition debekaMonthlyReturn_js :: jsnum where
  "debekaMonthlyReturn_js = js_div debekaNetGrowth_js (Finite 12)"

definition etfGrossReturn_js :: jsnum where
  "etfGrossReturn_js = js_sub (Finite etfGrowthRate) (Finite etfCosts)"
definition etfAnnualGains_js :: jsnum where
  "etfAnnualGains_js = etfGrossReturn_js"
definition etfTaxOnGains_js :: jsnum where
  "etfTaxOnGains_js = js_mul etfAnnualGains_js (Finite abgeltungssteuer)"
definition etfNetGrowth_js :: jsnum where
  "etfNetGrowth_js = js_sub etfGrossReturn_js etfTaxOnGains_js"
definition etfMonthlyReturn_js :: jsnum where
  "etfMonthlyReturn_js = js_div etfNetGrowth_js (Finite 12)"

definition klassischNetGrowth_js :: jsnum where
  "klassischNetGrowth_js = js_sub (Finite klassischGrowthRate) (Finite klassischCosts)"
definition klassischMonthlyReturn_js :: jsnum where
  "klassischMonthlyReturn_js = js_div klassischNetGrowth_js (Finite 12)"

definition years_of_js :: "ComparisonInputs \<Rightarrow> jsnum" where
  "years_of_js inputs = js_sub (Finite (retirementAge inputs)) (Finite (currentAge inputs))"

definition months_of_js :: "ComparisonInputs \<Rightarrow> jsnum" where
  "months_of_js inputs = js_mul (years_of_js inputs) (Finite 12)"

definition totalContributions_of_js :: "ComparisonInputs \<Rightarrow> jsnum" where
  "totalContributions_of_js inputs =
     js_add (js_mul (Finite (monthlyContribution inputs)) (months_of_js inputs))
       (Finite (currentAssets inputs))"

definition debekaFutureValue_js :: "ComparisonInputs \<Rightarrow> jsnum" where
  "debekaFutureValue_js inputs =
     js_add
       (js_mul (Finite (currentAssets inputs))
          (Math_pow_js (js_add (Finite 1) debekaNetGrowth_js) (years_of_js inputs)))
       (js_mul (Finite (monthlyContribution inputs))
          (js_div
             (js_sub (Math_pow_js (js_add (Finite 1) debekaMonthlyReturn_js) (months_of_js inputs))
                (Finite 1))
             debekaMonthlyReturn_js))"

definition debekaGrossMonthlyPension_js :: "ComparisonInputs \<Rightarrow> jsnum" where
  "debekaGrossMonthlyPension_js inputs =
     js_div (js_mul (debekaFutureValue_js inputs) (Finite 0.04)) (Finite 12)"

definition debekaTaxableAmount_js :: "ComparisonInputs \<Rightarrow> jsnum" where
  "debekaTaxableAmount_js inputs =
     js_mul (debekaGrossMonthlyPension_js inputs) (Finite debekaErtragsanteil)"

definition debekaTax_js :: "ComparisonInputs \<Rightarrow> jsnum" where
  "debekaTax_js inputs = js_mul (debekaTaxableAmount_js inputs) (Finite 0.25)"

definition debekaNetMonthlyPension_js :: "ComparisonInputs \<Rightarrow> jsnum" where
  "debekaNetMonthlyPension_js inputs =
     js_sub (debekaGrossMonthlyPension_js inputs) (debekaTax_js inputs)"

definition etfFutureValue_js :: "ComparisonInputs \<Rightarrow> jsnum" where
  "etfFutureValue_js inputs =
     js_add
       (js_mul (Finite (currentAssets inputs))
          (Math_pow_js (js_add (Finite 1) etfNetGrowth_js) (years_of_js inputs)))
       (js_mul (Finite (monthlyContribution inputs))
          (js_div
             (js_sub (Math_pow_js (js_add (Finite 1) etfMonthlyReturn_js) (months_of_js inputs))
                (Finite 1))
             etfMonthlyReturn_js))"

definition etfNetMonthlyPension_js :: "ComparisonInputs \<Rightarrow> jsnum" where
  "etfNetMonthlyPension_js inputs =
     js_div (js_mul (etfFutureValue_js inputs) (Finite 0.04)) (Finite 12)"

definition klassischFutureValue_js :: "ComparisonInputs \<Rightarrow> jsnum" where
  "klassischFutureValue_js inputs =
     js_add
       (js_mul (Finite (currentAssets inputs))
          (Math_pow_js (js_add (Finite 1) klassischNetGrowth_js) (years_of_js inputs)))
       (js_mul (Finite (monthlyContribution inputs))
          (js_div
             (js_sub
                (Math_pow_js (js_add (Finite 1) klassischMonthlyReturn_js) (months_of_js inputs))
                (Finite 1))
             klassischMonthlyReturn_js))"

definition klassischGrossMonthlyPension_js :: "ComparisonInputs \<Rightarrow> jsnum" where
  "klassischGrossMonthlyPension_js inputs =
     js_div (js_mul (klassischFutureValue_js inputs) (Finite 0.04)) (Finite 12)"

definition klassischTaxableAmount_js :: "ComparisonInputs \<Rightarrow> jsnum" where
  "klassischTaxableAmount_js inputs =
     js_mul (klassischGrossMonthlyPension_js inputs) (Finite debekaErtragsanteil)"

definition klassischTax_js :: "ComparisonInputs \<Rightarrow> jsnum" where
  "klassischTax_js inputs = js_mul (klassischTaxableAmount_js inputs) (Finite 0.25)"

definition klassischNetMonthlyPension_js :: "ComparisonInputs \<Rightarrow> jsnum" where
  "klassischNetMonthlyPension_js inputs =
     js_sub (klassischGrossMonthlyPension_js inputs) (klassischTax_js inputs)"

definition debeka30YearTax_js :: "ComparisonInputs \<Rightarrow> jsnum" where
  "debeka30YearTax_js inputs =
     js_mul (js_mul (debekaTax_js inputs) (Finite 12)) (Finite retirementYears)"

definition etfTaxDuringAccumulation_js :: "ComparisonInputs \<Rightarrow> jsnum" where
  "etfTaxDuringAccumulation_js inputs =
     js_div
       (js_mul
          (js_mul (js_mul (Finite (monthlyContribution inputs)) (Finite 12)) (years_of_js inputs))
          etfTaxOnGains_js)
       etfGrossReturn_js"

definition totalEtfTax_js :: "ComparisonInputs \<Rightarrow> jsnum" where
  "totalEtfTax_js inputs = etfTaxDuringAccumulation_js inputs"

definition taxAdvantage_of_js :: "ComparisonInputs \<Rightarrow> jsnum" where
  "taxAdvantage_of_js inputs = js_sub (totalEtfTax_js inputs) (debeka30YearTax_js inputs)"

record VehicleResult_js =
  finalCapital_js :: jsnum
  monthlyPension_js :: jsnum
  grossMonthlyPension_js :: jsnum
  totalTax_js :: jsnum
  netReturn_js :: jsnum
  taxRate_js :: jsnum

record ComparisonResult_js =
  debeka_js :: VehicleResult_js
  etf_js :: VehicleResult_js
  klassisch_js :: VehicleResult_js
  taxAdvantage_js :: jsnum
  totalContributions_js :: jsnum
  years_js :: jsnum

definition comparison_js :: "ComparisonInputs \<Rightarrow> ComparisonResult_js" where
  "comparison_js inputs =
     \<lparr> debeka_js =
         \<lparr> finalCapital_js = debekaFutureValue_js inputs,
           monthlyPension_js = debekaNetMonthlyPension_js inputs,
           grossMonthlyPension_js = debekaGrossMonthlyPension_js inputs,
           totalTax_js = debeka30YearTax_js inputs,
           netReturn_js = js_mul debekaNetGrowth_js (Finite 100),
           taxRate_js = js_mul (Finite debekaErtragsanteil) (Finite 100) \<rparr>,
       etf_js =
         \<lparr> finalCapital_js = etfFutureValue_js inputs,
           monthlyPension_js = etfNetMonthlyPension_js inputs,
           grossMonthlyPension_js = etfNetMonthlyPension_js inputs,
           totalTax_js = totalEtfTax_js inputs,
           netReturn_js = js_mul etfNetGrowth_js (Finite 100),
           taxRate_js = js_mul (Finite abgeltungssteuer) (Finite 100) \<rparr>,
       klassisch_js =
         \<lparr> finalCapital_js = klassischFutureValue_js inputs,
           monthlyPension_js = klassischNetMonthlyPension_js inputs,
           grossMonthlyPension_js = klassischGrossMonthlyPension_js inputs,
           totalTax_js = js_mul (js_mul (klassischTax_js inputs) (Finite 12)) (Finite retirementYears),
           netReturn_js = js_mul klassischNetGrowth_js (Finite 100),
           taxRate_js = js_mul (Finite debekaErtragsanteil) (Finite 100) \<rparr>,
       taxAdvantage_js = taxAdvantage_of_js inputs,
       totalContributions_js = totalContributions_of_js inputs,
       years_js = years_of_js inputs \<rparr>"

text \<open>
  The right operand of every \<^verbatim>\<open>/\<close> in the callback, in source order: the divisions that
  give \<^verbatim>\<open>debekaMonthlyReturn\<close>, \<^verbatim>\<open>debekaFutureValue\<close> and
  \<^verbatim>\<open>debekaGrossMonthlyPension\<close>; those that give \<^verbatim>\<open>etfMonthlyReturn\<close>,
  \<^verbatim>\<open>etfFutureValue\<close> and \<^verbatim>\<open>etfNetMonthlyPension\<close>; those that give
  \<^verbatim>\<open>klassischMonthlyReturn\<close>, \<^verbatim>\<open>klassischFutureValue\<close> and
  \<^verbatim>\<open>klassischGrossMonthlyPension\<close>; and the one in \<^verbatim>\<open>etfTaxDuringAccumulation\<close>.
  None of them mentions the inputs.
\<close>

fun positive_finite :: "jsnum \<Rightarrow> bool" where
  "positive_finite (Finite x) = (0 < x)"
| "positive_finite PosInfinity = False"
| "positive_finite NegInfinity = False"
| "positive_finite NaN = False"

definition comparison_divisors :: "jsnum list" where
  "comparison_divisors =
     [Finite 12, debekaMonthlyReturn_js, Finite 12,
      Finite 12, etfMonthlyReturn_js, Finite 12,
      Finite 12, klassischMonthlyReturn_js, Finite 12,
      etfGrossReturn_js]"

text \<open>
  A result of the real-number reading, seen as a result made of finite JavaScript
  numbers.
\<close>

definition finite_vehicle :: "VehicleResult \<Rightarrow> VehicleResult_js" where
  "finite_vehicle r =
     \<lparr> finalCapital_js = Finite (finalCapital r),
       monthlyPension_js = Finite (monthlyPension r),
       grossMonthlyPension_js = Finite (grossMonthlyPension r),
       totalTax_js = Finite (totalTax r),
       netReturn_js = Finite (netReturn r),
       taxRate_js = Finite (taxRate r) \<rparr>"

definition finite_result :: "ComparisonResult \<Rightarrow> ComparisonResult_js" where
  "finite_result c =
     \<lparr> debeka_js = finite_vehicle (debeka c),
       etf_js = finite_vehicle (etf c),
       klassisch_js = finite_vehicle (klassisch c),
       taxAdvantage_js = Finite (taxAdvantage c),
       totalContributions_js = Finite (totalContributions c),
       years_js = Finite (years c) \<rparr>"

section \<open>Properties\<close>

lemmas const_defs =
  debekaGrowthRate_def debekaCosts_def debekaNetGrowth_def debekaMonthlyReturn_def
  debekaErtragsanteil_def etfGrowthRate_def etfCosts_def etfGrossReturn_def abgeltungssteuer_def
  etfAnnualGains_def etfTaxOnGains_def etfNetGrowth_def etfMonthlyReturn_def
  klassischGrowthRate_def klassischCosts_def klassischNetGrowth_def klassischMonthlyReturn_def
  retirementYears_def

lemmas input_defs =
  years_of_def months_of_def totalContributions_of_def debekaFutureValue_def
  debekaGrossMonthlyPension_def debekaTaxableAmount_def debekaTax_def
  debekaNetMonthlyPension_def etfFutureValue_def etfNetMonthlyPension_def
  klassischFutureValue_def klassischGrossMonthlyPension_def klassischTaxableAmount_def
  klassischTax_def klassischNetMonthlyPension_def debeka30YearTax_def
  etfTaxDuringAccumulation_def totalEtfTax_def taxAdvantage_of_def

subsection \<open>The annuity factor\<close>

text \<open>
  Facts about \<open>((1 + r) powr n - 1) / r\<close>, the factor that multiplies the monthly
  contribution. For \<open>n \<ge> 1\<close> it grows with the rate \<open>r\<close>: the power is convex in \<open>r\<close>,
  which the mean value theorem turns into an inequality between difference quotients.
\<close>

lemma DERIV_one_plus_powr:
  fixes n z :: real
  assumes "- 1 < z"
  shows "DERIV (\<lambda>r. (1 + r) powr n) z :> n * (1 + z) powr (n - 1)"
  using assms by (auto intro!: derivative_eq_intros)

lemma powr_increment:
  fixes n a b :: real
  assumes "0 \<le> a" and "a < b"
  shows "\<exists>z. a < z \<and> z < b \<and>
           (1 + b) powr n - (1 + a) powr n = (b - a) * (n * (1 + z) powr (n - 1))"
proof -
  have "\<exists>z. a < z \<and> z < b \<and> (\<lambda>r. (1 + r) powr n) b - (\<lambda>r. (1 + r) powr n) a
           = (b - a) * (\<lambda>z. n * (1 + z) powr (n - 1)) z"
    using assms by (intro MVT2) (auto intro!: DERIV_one_plus_powr)
  then show ?thesis by simp
qed

lemma annuity_factor_ge:
  fixes n r :: real
  assumes n: "1 \<le> n" and r: "0 < r"
  shows "n \<le> ((1 + r) powr n - 1) / r"
proof -
  obtain z where z: "0 < z" "z < r"
      "(1 + r) powr n - (1 + 0) powr n = (r - 0) * (n * (1 + z) powr (n - 1))"
    using powr_increment [of 0 r n] r by auto
  have "1 \<le> (1 + z) powr (n - 1)"
    using z n by (intro ge_one_powr_ge_zero) auto
  then have "n * 1 \<le> n * (1 + z) powr (n - 1)"
    using n by (intro mult_left_mono) auto
  moreover have "((1 + r) powr n - 1) / r = n * (1 + z) powr (n - 1)"
    using z r by simp
  ultimately show ?thesis by simp
qed

lemma annuity_factor_mono:
  fixes n r1 r2 :: real
  assumes n: "1 \<le> n" and r1: "0 < r1" and le: "r1 \<le> r2"
  shows "((1 + r1) powr n - 1) / r1 \<le> ((1 + r2) powr n - 1) / r2"
proof (cases "r1 = r2")
  case True
  then show ?thesis by simp
next
  case False
  then have lt: "r1 < r2" using le by simp
  obtain z1 where z1: "0 < z1" "z1 < r1"
      "(1 + r1) powr n - (1 + 0) powr n = (r1 - 0) * (n * (1 + z1) powr (n - 1))"
    using powr_increment [of 0 r1 n] r1 by auto
  obtain z2 where z2: "r1 < z2" "z2 < r2"
      "(1 + r2) powr n - (1 + r1) powr n = (r2 - r1) * (n * (1 + z2) powr (n - 1))"
    using powr_increment [of r1 r2 n] r1 lt by auto
  define d1 where "d1 = n * (1 + z1) powr (n - 1)"
  define d2 where "d2 = n * (1 + z2) powr (n - 1)"
  have "(1 + z1) powr (n - 1) \<le> (1 + z2) powr (n - 1)"
    using z1 z2 n by (intro powr_mono2) auto
  then have d: "d1 \<le> d2"
    unfolding d1_def d2_def using n by (intro mult_left_mono) auto
  have e1: "(1 + r1) powr n - 1 = r1 * d1"
    using z1 by (simp add: d1_def)
  have e2: "(1 + r2) powr n - 1 = r1 * d1 + (r2 - r1) * d2"
    using z2 e1 by (simp add: d2_def)
  have "r2 * d1 = r1 * d1 + (r2 - r1) * d1"
    by (simp add: algebra_simps)
  also have "\<dots> \<le> r1 * d1 + (r2 - r1) * d2"
    using d lt by (intro add_left_mono mult_left_mono) auto
  finally have "r2 * d1 \<le> (1 + r2) powr n - 1"
    using e2 by simp
  then have "d1 \<le> ((1 + r2) powr n - 1) / r2"
    using r1 lt by (simp add: pos_le_divide_eq mult.commute)
  moreover have "((1 + r1) powr n - 1) / r1 = d1"
    using e1 r1 by simp
  ultimately show ?thesis by simp
qed

lemma annuity_factor_nonneg:
  fixes n r :: real
  assumes "0 \<le> n" and "0 < r"
  shows "0 \<le> ((1 + r) powr n - 1) / r"
proof -
  have "1 \<le> (1 + r) powr n"
    using assms by (intro ge_one_powr_ge_zero) auto
  then show ?thesis using assms by simp
qed

lemma annuity_factor_negative:
  fixes n r :: real
  assumes "n < 0" and "0 < r"
  shows "((1 + r) powr n - 1) / r < 0"
proof -
  have "(1 + r) powr n < (1 + r) powr 0"
    using assms by (intro powr_less_mono) auto
  then have "(1 + r) powr n - 1 < 0"
    using assms by simp
  then show ?thesis using assms by (simp add: divide_neg_pos)
qed

lemma annuity_factor_mono_months:
  fixes n n' r :: real
  assumes "n \<le> n'" and "0 < r"
  shows "((1 + r) powr n - 1) / r \<le> ((1 + r) powr n' - 1) / r"
proof -
  have "(1 + r) powr n \<le> (1 + r) powr n'"
    using assms by (intro powr_mono) auto
  then show ?thesis using assms by (simp add: divide_right_mono)
qed

subsection \<open>Monotonicity of the future-value formula in exact arithmetic\<close>

text \<open>
  On valid arguments \<open>calculateFutureValue\<close> is the formula
  \<open>monthlyPayment * (((1 + monthlyRate) powr totalMonths - 1) / monthlyRate)\<close>, or
  \<open>monthlyPayment * totalMonths\<close> at rate 0. Over the reals that formula never decreases
  when the payment or the years grow, and never decreases when the rate grows as long
  as the horizon is zero or at least one month, so in particular for every whole number
  of years.

  These are facts about the formula, not about its evaluation in double precision. The
  branch for rate 0 tests \<^verbatim>\<open>monthlyRate === 0\<close> only: for a positive annual rate as small
  as \<open>1e-17\<close> the sum \<^verbatim>\<open>1 + monthlyRate\<close> rounds to 1, \<^verbatim>\<open>Math.pow(1, totalMonths) - 1\<close> is
  0, and the code returns 0, less than the \<open>monthlyPayment * totalMonths\<close> it returns
  at rate 0. Rounding is outside the number model of this theory, so that behaviour is
  not among its theorems.
\<close>

lemma cfv_valid:
  assumes "0 \<le> p" and "0 \<le> r" and "0 \<le> y" and "y \<le> 100"
  shows "calculateFutureValue p r y =
    (if r = 0 then p * (y * 12) else p * (((1 + r / 12) powr (y * 12) - 1) / (r / 12)))"
  using assms by (simp add: calculateFutureValue_def calculateFutureValue_try_def Math_pow_def)

lemma cfv_mono_payment:
  assumes "0 \<le> p" and "p \<le> p'" and "0 \<le> r" and "0 \<le> y" and "y \<le> 100"
  shows "calculateFutureValue p r y \<le> calculateFutureValue p' r y"
proof (cases "r = 0")
  case True
  then show ?thesis using assms by (simp add: cfv_valid mult_right_mono)
next
  case False
  then have "0 \<le> ((1 + r / 12) powr (y * 12) - 1) / (r / 12)"
    using assms by (intro annuity_factor_nonneg) auto
  then have "p * (((1 + r / 12) powr (y * 12) - 1) / (r / 12))
      \<le> p' * (((1 + r / 12) powr (y * 12) - 1) / (r / 12))"
    using assms by (intro mult_right_mono) auto
  then show ?thesis using assms False by (simp add: cfv_valid)
qed

lemma cfv_mono_years:
  assumes "0 \<le> p" and "0 \<le> r" and "0 \<le> y" and "y \<le> y'" and "y' \<le> 100"
  shows "calculateFutureValue p r y \<le> calculateFutureValue p r y'"
proof (cases "r = 0")
  case True
  then show ?thesis using assms by (simp add: cfv_valid mult_left_mono)
next
  case False
  then have "((1 + r / 12) powr (y * 12) - 1) / (r / 12)
      \<le> ((1 + r / 12) powr (y' * 12) - 1) / (r / 12)"
    using assms by (intro annuity_factor_mono_months) auto
  then have "p * (((1 + r / 12) powr (y * 12) - 1) / (r / 12))
      \<le> p * (((1 + r / 12) powr (y' * 12) - 1) / (r / 12))"
    using assms by (intro mult_left_mono) auto
  then show ?thesis using assms False by (simp add: cfv_valid)
qed

lemma cfv_mono_rate:
  assumes "0 \<le> p" and "0 \<le> r" and "r \<le> r'" and "0 \<le> y" and "y \<le> 100"
    and "y = 0 \<or> 1 \<le> y * 12"
  shows "calculateFutureValue p r y \<le> calculateFutureValue p r' y"
proof (cases "y = 0")
  case True
  then show ?thesis using assms by (simp add: cfv_valid)
next
  case False
  then have n: "1 \<le> y * 12" using assms by simp
  show ?thesis
  proof (cases "r' = 0")
    case True
    then have "r = 0" using assms by simp
    then show ?thesis using True by simp
  next
    case r': False
    then have r'pos: "0 < r' / 12" using assms by simp
    show ?thesis
    proof (cases "r = 0")
      case True
      have "y * 12 \<le> ((1 + r' / 12) powr (y * 12) - 1) / (r' / 12)"
        using n r'pos by (rule annuity_factor_ge)
      then have "p * (y * 12) \<le> p * (((1 + r' / 12) powr (y * 12) - 1) / (r' / 12))"
        using assms by (intro mult_left_mono) auto
      then show ?thesis using assms True r' by (simp add: cfv_valid)
    next
      case False
      then have "0 < r / 12" and "r / 12 \<le> r' / 12" using assms by simp_all
      then have "((1 + r / 12) powr (y * 12) - 1) / (r / 12)
          \<le> ((1 + r' / 12) powr (y * 12) - 1) / (r' / 12)"
        using n by (intro annuity_factor_mono) auto
      then have "p * (((1 + r / 12) powr (y * 12) - 1) / (r / 12))
          \<le> p * (((1 + r' / 12) powr (y * 12) - 1) / (r' / 12))"
        using assms by (intro mult_left_mono) auto
      then show ?thesis using assms False r' by (simp add: cfv_valid)
    qed
  qed
qed

lemma cfv_mono_rate_whole_years:
  assumes "0 \<le> p" and "0 \<le> r" and "r \<le> r'" and "n \<le> 100"
  shows "calculateFutureValue p r (real n) \<le> calculateFutureValue p r' (real n)"
proof -
  have "real n = 0 \<or> 1 \<le> real n * 12"
    by (cases n) simp_all
  then show ?thesis
    using assms by (intro cfv_mono_rate) simp_all
qed

subsection \<open>The future-value expressions of the comparison\<close>

text \<open>
  The same facts for the three future values of the comparison, whose rates are
  positive constants: over the reals each never decreases when the current assets
  grow, when the monthly contribution grows (for a retirement age not below the current
  age), or when the retirement age grows (for assets and contribution \<open>\<ge> 0\<close>).
\<close>

lemma fv_shape_mono_contribution:
  fixes m m' c n r :: real
  assumes "m \<le> m'" and "0 \<le> n" and "0 < r"
  shows "c + m * (((1 + r) powr n - 1) / r) \<le> c + m' * (((1 + r) powr n - 1) / r)"
proof -
  have "0 \<le> ((1 + r) powr n - 1) / r"
    using assms by (intro annuity_factor_nonneg) auto
  then have "m * (((1 + r) powr n - 1) / r) \<le> m' * (((1 + r) powr n - 1) / r)"
    using assms by (intro mult_right_mono) auto
  then show ?thesis by simp
qed

lemma fv_shape_mono_years:
  fixes a m g r y y' :: real
  assumes "0 \<le> a" and "0 \<le> m" and "0 < g" and "0 < r" and "y \<le> y'"
  shows "a * (1 + g) powr y + m * (((1 + r) powr (y * 12) - 1) / r)
       \<le> a * (1 + g) powr y' + m * (((1 + r) powr (y' * 12) - 1) / r)"
proof -
  have "(1 + g) powr y \<le> (1 + g) powr y'"
    using assms by (intro powr_mono) auto
  then have 1: "a * (1 + g) powr y \<le> a * (1 + g) powr y'"
    using assms by (intro mult_left_mono) auto
  have "((1 + r) powr (y * 12) - 1) / r \<le> ((1 + r) powr (y' * 12) - 1) / r"
    using assms by (intro annuity_factor_mono_months) auto
  then have 2: "m * (((1 + r) powr (y * 12) - 1) / r) \<le> m * (((1 + r) powr (y' * 12) - 1) / r)"
    using assms by (intro mult_left_mono) auto
  from 1 2 show ?thesis by (rule add_mono)
qed

lemma monthly_returns_positive:
  "0 < debekaNetGrowth" "0 < debekaMonthlyReturn" "0 < etfNetGrowth" "0 < etfMonthlyReturn"
  "0 < klassischNetGrowth" "0 < klassischMonthlyReturn"
  by (simp_all add: const_defs)

lemmas fv_defs =
  comparison_def debekaFutureValue_def etfFutureValue_def klassischFutureValue_def
  years_of_def months_of_def Math_pow_def

lemma comparison_mono_assets:
  assumes "a \<le> a'"
  shows "finalCapital (vehicleResult (comparison (i\<lparr>currentAssets := a\<rparr>)) v)
       \<le> finalCapital (vehicleResult (comparison (i\<lparr>currentAssets := a'\<rparr>)) v)"
  using assms by (cases v) (simp_all add: fv_defs mult_right_mono)

lemma comparison_mono_contribution:
  assumes "currentAge i \<le> retirementAge i" and "m \<le> m'"
  shows "finalCapital (vehicleResult (comparison (i\<lparr>monthlyContribution := m\<rparr>)) v)
       \<le> finalCapital (vehicleResult (comparison (i\<lparr>monthlyContribution := m'\<rparr>)) v)"
proof -
  let ?n = "(retirementAge i - currentAge i) * 12"
  have n: "0 \<le> ?n" using assms by simp
  note mono = fv_shape_mono_contribution [OF assms(2) n]
  show ?thesis
  proof (cases v)
    case Debeka
    from mono [OF monthly_returns_positive(2)] show ?thesis
      unfolding Debeka by (simp add: fv_defs)
  next
    case ETF
    from mono [OF monthly_returns_positive(4)] show ?thesis
      unfolding ETF by (simp add: fv_defs)
  next
    case Klassisch
    from mono [OF monthly_returns_positive(6)] show ?thesis
      unfolding Klassisch by (simp add: fv_defs)
  qed
qed

lemma comparison_mono_retirementAge:
  assumes "0 \<le> currentAssets i" and "0 \<le> monthlyContribution i" and "t \<le> t'"
  shows "finalCapital (vehicleResult (comparison (i\<lparr>retirementAge := t\<rparr>)) v)
       \<le> finalCapital (vehicleResult (comparison (i\<lparr>retirementAge := t'\<rparr>)) v)"
proof -
  have y: "t - currentAge i \<le> t' - currentAge i" using assms by simp
  show ?thesis
  proof (cases v)
    case Debeka
    from fv_shape_mono_years [OF assms(1,2) monthly_returns_positive(1,2) y] show ?thesis
      unfolding Debeka by (simp add: fv_defs)
  next
    case ETF
    from fv_shape_mono_years [OF assms(1,2) monthly_returns_positive(3,4) y] show ?thesis
      unfolding ETF by (simp add: fv_defs)
  next
    case Klassisch
    from fv_shape_mono_years [OF assms(1,2) monthly_returns_positive(5,6) y] show ?thesis
      unfolding Klassisch by (simp add: fv_defs)
  qed
qed

subsection \<open>Future value: the formula\<close>

text \<open>
  C1, as the specification states it: with a nonzero monthly rate the future value is
  \<open>initialCapital * (1 + monthlyRate)^months + monthlyContribution *
  (((1 + monthlyRate)^months - 1) / monthlyRate)\<close>, the lump sum compounded at the monthly
  rate over the months. The code compounds the lump sum at the annual rate over the
  years: one year from now, 1000 of current assets and no contributions are worth
  \<open>1000 * 1.047 = 1047\<close> in the Debeka vehicle, which is not
  \<open>1000 * (1 + 0.047 / 12)^12\<close>.
\<close>

theorem lump_sum_not_monthly_compounded:
  "finalCapital (debeka (comparison
      \<lparr>currentAge = 35, monthlyContribution = 0, currentAssets = 1000, retirementAge = 36\<rparr>))
     = 1047
   \<and> 1000 * Math_pow (1 + debekaNetGrowth / 12) (1 * 12) +
       0 * ((Math_pow (1 + debekaNetGrowth / 12) (1 * 12) - 1) / (debekaNetGrowth / 12))
     \<noteq> 1047"
  by (simp add: comparison_def input_defs const_defs Math_pow_def power_divide)

text \<open>
  C1, amended. For every input, each vehicle's final capital is
  \<open>currentAssets * (1 + netGrowth)^years + monthlyContribution *
  (((1 + netGrowth / 12)^months - 1) / (netGrowth / 12))\<close> with
  \<open>years = retirementAge - currentAge\<close> and \<open>months = years * 12\<close>: the contributions
  are compounded monthly at \<open>netGrowth / 12\<close>, the lump sum yearly at \<open>netGrowth\<close>. The
  net growth is 0.06 - 0.013 for Debeka, (0.07 - 0.003) * (1 - 0.26375) for the ETF and
  0.02 - 0.01 for the classic insurance. \<open>calculateFutureValue\<close> has no lump sum; for
  a payment \<open>\<ge> 0\<close>, a rate \<open>> 0\<close> and \<open>0 \<le> years \<le> 100\<close> it returns
  \<open>monthlyPayment * (((1 + annualRate / 12)^(years * 12) - 1) / (annualRate / 12))\<close>.
\<close>

theorem future_value_formula:
  "finalCapital (debeka (comparison inputs)) =
     currentAssets inputs * (1 + (0.06 - 0.013)) powr (retirementAge inputs - currentAge inputs) +
     monthlyContribution inputs *
       (((1 + (0.06 - 0.013) / 12) powr ((retirementAge inputs - currentAge inputs) * 12) - 1)
         / ((0.06 - 0.013) / 12))
   \<and> finalCapital (etf (comparison inputs)) =
     currentAssets inputs *
       (1 + (0.07 - 0.003) * (1 - 0.26375)) powr (retirementAge inputs - currentAge inputs) +
     monthlyContribution inputs *
       (((1 + (0.07 - 0.003) * (1 - 0.26375) / 12)
            powr ((retirementAge inputs - currentAge inputs) * 12) - 1)
         / ((0.07 - 0.003) * (1 - 0.26375) / 12))
   \<and> finalCapital (klassisch (comparison inputs)) =
     currentAssets inputs * (1 + (0.02 - 0.01)) powr (retirementAge inputs - currentAge inputs) +
     monthlyContribution inputs *
       (((1 + (0.02 - 0.01) / 12) powr ((retirementAge inputs - currentAge inputs) * 12) - 1)
         / ((0.02 - 0.01) / 12))
   \<and> (0 \<le> p \<and> 0 < r \<and> 0 \<le> y \<and> y \<le> 100 \<longrightarrow>
        calculateFutureValue p r y = p * (((1 + r / 12) powr (y * 12) - 1) / (r / 12)))"
proof -
  have d: "finalCapital (debeka (comparison inputs)) =
     currentAssets inputs * (1 + (0.06 - 0.013)) powr (retirementAge inputs - currentAge inputs) +
     monthlyContribution inputs *
       (((1 + (0.06 - 0.013) / 12) powr ((retirementAge inputs - currentAge inputs) * 12) - 1)
         / ((0.06 - 0.013) / 12))"
    by (simp add: comparison_def input_defs const_defs Math_pow_def)
  have e: "finalCapital (etf (comparison inputs)) =
     currentAssets inputs *
       (1 + (0.07 - 0.003) * (1 - 0.26375)) powr (retirementAge inputs - currentAge inputs) +
     monthlyContribution inputs *
       (((1 + (0.07 - 0.003) * (1 - 0.26375) / 12)
            powr ((retirementAge inputs - currentAge inputs) * 12) - 1)
         / ((0.07 - 0.003) * (1 - 0.26375) / 12))"
    by (simp add: comparison_def input_defs const_defs Math_pow_def)
  have k: "finalCapital (klassisch (comparison inputs)) =
     currentAssets inputs * (1 + (0.02 - 0.01)) powr (retirementAge inputs - currentAge inputs) +
     monthlyContribution inputs *
       (((1 + (0.02 - 0.01) / 12) powr ((retirementAge inputs - currentAge inputs) * 12) - 1)
         / ((0.02 - 0.01) / 12))"
    by (simp add: comparison_def input_defs const_defs Math_pow_def)
  have c: "0 \<le> p \<and> 0 < r \<and> 0 \<le> y \<and> y \<le> 100 \<longrightarrow>
        calculateFutureValue p r y = p * (((1 + r / 12) powr (y * 12) - 1) / (r / 12))"
    by (simp add: calculateFutureValue_def calculateFutureValue_try_def Math_pow_def)
  from d e k c show ?thesis by blast
qed

theorem future_value_formula_witness:
  "finalCapital (debeka (comparison
      \<lparr>currentAge = 35, monthlyContribution = 300, currentAssets = 1000, retirementAge = 37\<rparr>))
     = 1000 * (1047 / 1000)\<^sup>2 + 300 * (((12047 / 12000) ^ 24 - 1) / (47 / 12000))
   \<and> (0::real) \<le> 300 \<and> (0::real) < 6 / 100 \<and> (0::real) \<le> 2 \<and> (2::real) \<le> 100
   \<and> calculateFutureValue 300 (6 / 100) 2 = 300 * (((201 / 200) ^ 24 - 1) / (1 / 200))"
  using future_value_formula
    [of "\<lparr>currentAge = 35, monthlyContribution = 300, currentAssets = 1000, retirementAge = 37\<rparr>"
        300 "6 / 100" 2]
  by simp

subsection \<open>Future value: invalid arguments\<close>

text \<open>
  C2, as the specification states it: called with a negative contribution, a negative
  rate, negative years or more than 100 years, the computation reports an error to its
  caller and never returns a default number such as 0 in its place. In the code the
  \<^verbatim>\<open>try\<close> block throws, the \<^verbatim>\<open>catch\<close> handler takes the error, and the caller gets the
  number 0 in each of the four cases.
\<close>

theorem invalid_input_no_error:
  "calculateFutureValue_try (- 1) 0.05 10 = Inl (Error ''Values must be non-negative'')
   \<and> calculateFutureValue (- 1) 0.05 10 = 0
   \<and> calculateFutureValue 100 (- 0.05) 10 = 0
   \<and> calculateFutureValue 100 0.05 (- 1) = 0
   \<and> calculateFutureValue_try 100 0.05 101 = Inl (Error ''Investment period too long'')
   \<and> calculateFutureValue 100 0.05 101 = 0"
  by (simp add: calculateFutureValue_def calculateFutureValue_try_def)

text \<open>
  C2, amended. Called with a negative contribution, a negative rate, negative years or
  more than 100 years, the computation detects the violation (it raises
  \<^verbatim>\<open>Error('Values must be non-negative')\<close>, or
  \<^verbatim>\<open>Error('Investment period too long')\<close> when only the upper bound is broken), catches
  the error itself, writes it to the console and returns 0 to its caller.
\<close>

theorem invalid_input_swallowed:
  assumes "p < 0 \<or> r < 0 \<or> y < 0 \<or> 100 < y"
  shows "calculateFutureValue_try p r y =
           Inl (Error (if p < 0 \<or> r < 0 \<or> y < 0 then ''Values must be non-negative''
                       else ''Investment period too long''))
         \<and> calculateFutureValue p r y = 0
         \<and> calculateFutureValue_console p r y =
             [(''Calculation error:'',
               Error (if p < 0 \<or> r < 0 \<or> y < 0 then ''Values must be non-negative''
                      else ''Investment period too long''))]"
  using assms
  by (auto simp add: calculateFutureValue_def calculateFutureValue_console_def
        calculateFutureValue_try_def)

theorem invalid_input_swallowed_witness:
  "((300::real) < 0 \<or> (5 / 100 :: real) < 0 \<or> (101::real) < 0 \<or> (100::real) < 101)
   \<and> calculateFutureValue_try 300 (5 / 100) 101 = Inl (Error ''Investment period too long'')
   \<and> calculateFutureValue 300 (5 / 100) 101 = 0
   \<and> calculateFutureValue_console 300 (5 / 100) 101 =
       [(''Calculation error:'', Error ''Investment period too long'')]"
  using invalid_input_swallowed [of 300 "5 / 100" 101]
  by simp

subsection \<open>Future value: rate zero\<close>

text \<open>
  C3, as the specification states it: for every initial capital \<open>c \<ge> 0\<close>, contribution
  \<open>m \<ge> 0\<close> and \<open>years \<ge> 0\<close>, the future value at rate 0 is \<open>c + m * years * 12\<close>. The only
  future-value code with a branch for rate 0 is \<open>calculateFutureValue\<close>. It rejects
  horizons above 100 years (for \<open>c = 0\<close>, \<open>m = 1\<close>, \<open>years = 101\<close> it returns 0, not 1212), and
  it has no initial capital among its arguments (for \<open>c = 5\<close>, \<open>m = 1\<close>, \<open>years = 1\<close> it
  returns 12, not 17).
\<close>

theorem zero_rate_claim_fails:
  "calculateFutureValue 1 0 101 \<noteq> 0 + 1 * 101 * 12
   \<and> calculateFutureValue 1 0 1 \<noteq> 5 + 1 * 1 * 12"
  by (simp add: calculateFutureValue_def calculateFutureValue_try_def)

text \<open>
  C3, amended. For every contribution \<open>m \<ge> 0\<close> and \<open>0 \<le> years \<le> 100\<close>, the future value
  at annual rate 0 is exactly \<open>m * years * 12\<close>, the result of the branch for a zero
  monthly rate, which does not divide. The function takes no initial capital.
\<close>

theorem zero_rate_future_value:
  assumes "0 \<le> m" and "0 \<le> y" and "y \<le> 100"
  shows "calculateFutureValue m 0 y = m * y * 12
         \<and> calculateFutureValue_try m 0 y = Inr (m * y * 12)"
  using assms
  by (simp add: calculateFutureValue_def calculateFutureValue_try_def)

theorem zero_rate_future_value_witness:
  "(0::real) \<le> 300 \<and> (0::real) \<le> 32 \<and> (32::real) \<le> 100
   \<and> calculateFutureValue 300 0 32 = 115200"
  using zero_rate_future_value [of 300 32]
  by simp

subsection \<open>The comparison outside the age range\<close>

text \<open>
  C4, as the specification states it: a projection with \<open>retirementAge \<le> currentAge\<close>,
  or with more than 100 years to run, fails with a range error and produces no figures.
  The comparison produces figures in both cases: with both ages 67, assets 1000 and a
  contribution of 300 the Debeka vehicle shows a final capital of 1000 and a monthly
  pension of 383/120; from age 18 to age 120 (102 years) the classic vehicle shows
  \<open>1000 * 1.01^102\<close>. \<open>calculateFutureValue\<close> with 101 years returns the number 0.
\<close>

theorem range_rejection_fails:
  "finalCapital (debeka (comparison
      \<lparr>currentAge = 67, monthlyContribution = 300, currentAssets = 1000, retirementAge = 67\<rparr>))
     = 1000
   \<and> monthlyPension (debeka (comparison
      \<lparr>currentAge = 67, monthlyContribution = 300, currentAssets = 1000, retirementAge = 67\<rparr>))
     = 383 / 120
   \<and> finalCapital (klassisch (comparison
      \<lparr>currentAge = 18, monthlyContribution = 0, currentAssets = 1000, retirementAge = 120\<rparr>))
     = 1000 * (101 / 100) ^ 102
   \<and> calculateFutureValue 100 (5 / 100) 101 = 0"
  by (simp add: comparison_def input_defs const_defs Math_pow_def calculateFutureValue_def
        calculateFutureValue_try_def)

text \<open>
  C4, amended. The comparison checks no range and has no error path: for every input it
  returns a full result computed from \<open>years = retirementAge - currentAge\<close>. With
  \<open>retirementAge = currentAge\<close> every vehicle's final capital is the current assets, and
  so is the total of contributions; with \<open>retirementAge < currentAge\<close>, no assets and a
  positive contribution every vehicle's final capital is negative. Only
  \<open>calculateFutureValue\<close> checks the horizon: above 100 years (payment and rate \<open>\<ge> 0\<close>)
  it raises \<^verbatim>\<open>Error('Investment period too long')\<close>, catches it and returns 0.
\<close>

theorem no_range_rejection:
  "years (comparison inputs) = retirementAge inputs - currentAge inputs
   \<and> (retirementAge i = currentAge i \<longrightarrow>
        finalCapital (vehicleResult (comparison i) v) = currentAssets i
        \<and> totalContributions (comparison i) = currentAssets i)
   \<and> (retirementAge j < currentAge j \<and> currentAssets j = 0 \<and> 0 < monthlyContribution j \<longrightarrow>
        finalCapital (vehicleResult (comparison j) v) < 0)
   \<and> (0 \<le> p \<and> 0 \<le> r \<and> 100 < y \<longrightarrow>
        calculateFutureValue_try p r y = Inl (Error ''Investment period too long'')
        \<and> calculateFutureValue p r y = 0)"
proof -
  have y: "years (comparison inputs) = retirementAge inputs - currentAge inputs"
    by (simp add: comparison_def years_of_def)
  have a: "retirementAge i = currentAge i \<longrightarrow>
      finalCapital (vehicleResult (comparison i) v) = currentAssets i
      \<and> totalContributions (comparison i) = currentAssets i"
    by (cases v) (simp_all add: comparison_def input_defs const_defs Math_pow_def)
  have b: "finalCapital (vehicleResult (comparison j) v) < 0"
    if h: "retirementAge j < currentAge j" "currentAssets j = 0" "0 < monthlyContribution j"
  proof -
    have n: "months_of j < 0"
      using h by (simp add: months_of_def years_of_def)
    have "(Math_pow (1 + debekaMonthlyReturn) (months_of j) - 1) / debekaMonthlyReturn < 0"
      unfolding Math_pow_def using n monthly_returns_positive(2) by (rule annuity_factor_negative)
    then have d: "debekaFutureValue j < 0"
      using h by (simp add: debekaFutureValue_def mult_pos_neg del: times_divide_eq_right)
    have "(Math_pow (1 + etfMonthlyReturn) (months_of j) - 1) / etfMonthlyReturn < 0"
      unfolding Math_pow_def using n monthly_returns_positive(4) by (rule annuity_factor_negative)
    then have e: "etfFutureValue j < 0"
      using h by (simp add: etfFutureValue_def mult_pos_neg del: times_divide_eq_right)
    have "(Math_pow (1 + klassischMonthlyReturn) (months_of j) - 1) / klassischMonthlyReturn < 0"
      unfolding Math_pow_def using n monthly_returns_positive(6) by (rule annuity_factor_negative)
    then have k: "klassischFutureValue j < 0"
      using h by (simp add: klassischFutureValue_def mult_pos_neg del: times_divide_eq_right)
    from d e k show ?thesis
      by (cases v) (simp_all add: comparison_def)
  qed
  have c: "0 \<le> p \<and> 0 \<le> r \<and> 100 < y \<longrightarrow>
        calculateFutureValue_try p r y = Inl (Error ''Investment period too long'')
        \<and> calculateFutureValue p r y = 0"
    by (auto simp add: calculateFutureValue_def calculateFutureValue_try_def)
  from y a b c show ?thesis by blast
qed

theorem no_range_rejection_witness:
  "years (comparison
      \<lparr>currentAge = 18, monthlyContribution = 300, currentAssets = 1000, retirementAge = 120\<rparr>)
     = 102
   \<and> finalCapital (vehicleResult (comparison
      \<lparr>currentAge = 67, monthlyContribution = 300, currentAssets = 1000, retirementAge = 67\<rparr>)
      ETF) = 1000
   \<and> totalContributions (comparison
      \<lparr>currentAge = 67, monthlyContribution = 300, currentAssets = 1000, retirementAge = 67\<rparr>)
     = 1000
   \<and> finalCapital (vehicleResult (comparison
      \<lparr>currentAge = 67, monthlyContribution = 300, currentAssets = 0, retirementAge = 66\<rparr>)
      ETF) < 0
   \<and> (0::real) \<le> 100 \<and> (0::real) \<le> 5 / 100 \<and> (100::real) < 101
   \<and> calculateFutureValue_try 100 (5 / 100) 101 = Inl (Error ''Investment period too long'')
   \<and> calculateFutureValue 100 (5 / 100) 101 = 0"
  using no_range_rejection
    [of "\<lparr>currentAge = 18, monthlyContribution = 300, currentAssets = 1000, retirementAge = 120\<rparr>"
        "\<lparr>currentAge = 67, monthlyContribution = 300, currentAssets = 1000, retirementAge = 67\<rparr>"
        ETF
        "\<lparr>currentAge = 67, monthlyContribution = 300, currentAssets = 0, retirementAge = 66\<rparr>"
        100 "5 / 100" 101]
  by simp

subsection \<open>The winner\<close>




subsection \<open>Total tax and tax advantage\<close>

text \<open>
  C7, as the specification states it: for the ETF, the total tax is a running sum over
  the years of accumulation of that year's gain, based on the gross annual return, times
  the tax rate. With assets of 1000, a contribution of 300 and one year, the code
  reports 949.50. The first year's gain on the invested 1000 is 67 and its tax 17.67125;
  even the gross return on everything paid in by the end of that year,
  \<open>(1000 + 300 * 12) * 0.067\<close>, taxed at 26.375 %, stays far below 949.50; and the tax on
  the return rate itself, \<open>etfAnnualGains * abgeltungssteuer\<close> summed over one year, is
  0.01767125.
\<close>

theorem etf_tax_not_gain_based:
  "totalTax (etf (comparison
      \<lparr>currentAge = 35, monthlyContribution = 300, currentAssets = 1000, retirementAge = 36\<rparr>))
     = 949.5
   \<and> spec_runningGainsTax 1000 300 etfGrossReturn abgeltungssteuer 1 = 17.67125
   \<and> (1000 + 300 * 12) * etfGrossReturn * abgeltungssteuer < 949.5
   \<and> 1 * (etfAnnualGains * abgeltungssteuer) = 0.01767125"
  by (simp add: comparison_def input_defs const_defs)

text \<open>
  C7, amended. For the ETF vehicle the total tax is the closed form
  \<open>monthlyContribution * 12 * years * etfTaxOnGains / etfGrossReturn\<close>, which is
  \<open>monthlyContribution * 12 * years * 0.26375\<close>: for a whole number of years, the sum over
  the years of accumulation of that year's contributions (not of its gain) times the
  tax rate. For the two vehicles taxed by Ertragsanteil (Debeka and the classic
  insurance) the total tax is the tax per month, \<open>grossMonthlyPension * 0.17 * 0.25\<close>,
  times 12 times \<open>retirementYears\<close>, a constant of 20 years.
\<close>

theorem total_tax_formulas:
  "totalTax (etf (comparison inputs)) =
     monthlyContribution inputs * 12 * (retirementAge inputs - currentAge inputs) * 0.26375
   \<and> (retirementAge inputs - currentAge inputs = real n \<longrightarrow>
        totalTax (etf (comparison inputs)) = (\<Sum>k<n. monthlyContribution inputs * 12 * 0.26375))
   \<and> totalTax (debeka (comparison inputs)) =
       (grossMonthlyPension (debeka (comparison inputs)) * 0.17 * 0.25) * 12 * retirementYears
   \<and> totalTax (klassisch (comparison inputs)) =
       (grossMonthlyPension (klassisch (comparison inputs)) * 0.17 * 0.25) * 12 * retirementYears
   \<and> retirementYears = 20"
  by (simp add: comparison_def input_defs const_defs)

theorem total_tax_formulas_witness:
  "(37 - 35 :: real) = real 2
   \<and> totalTax (etf (comparison
      \<lparr>currentAge = 35, monthlyContribution = 300, currentAssets = 0, retirementAge = 37\<rparr>))
     = (\<Sum>k<(2::nat). 300 * 12 * 0.26375)
   \<and> totalTax (etf (comparison
      \<lparr>currentAge = 35, monthlyContribution = 300, currentAssets = 0, retirementAge = 37\<rparr>))
     = 1899"
  using total_tax_formulas
    [of "\<lparr>currentAge = 35, monthlyContribution = 300, currentAssets = 0, retirementAge = 37\<rparr>" 2]
  by simp

text \<open>
  C8, as the specification states it: the tax advantage is the higher-tax vehicle's
  total tax minus the lower-tax vehicle's, so it is never negative, and a negative
  figure is never displayed. With assets of 1000, no contribution and one year the ETF's
  total tax is 0 and Debeka's is 35.598: the code's figure is -35.598, not the
  difference of the higher and the lower, and the closing paragraph of the page
  displays it as minus 36 euros.
\<close>

theorem tax_advantage_negative:
  "taxAdvantage (comparison
      \<lparr>currentAge = 35, monthlyContribution = 0, currentAssets = 1000, retirementAge = 36\<rparr>)
     = - 35.598
   \<and> max (totalTax (etf (comparison
            \<lparr>currentAge = 35, monthlyContribution = 0, currentAssets = 1000, retirementAge = 36\<rparr>)))
          (totalTax (debeka (comparison
            \<lparr>currentAge = 35, monthlyContribution = 0, currentAssets = 1000, retirementAge = 36\<rparr>)))
       - min (totalTax (etf (comparison
            \<lparr>currentAge = 35, monthlyContribution = 0, currentAssets = 1000, retirementAge = 36\<rparr>)))
          (totalTax (debeka (comparison
            \<lparr>currentAge = 35, monthlyContribution = 0, currentAssets = 1000, retirementAge = 36\<rparr>)))
     = 35.598
   \<and> ctaTaxSavings (comparison
      \<lparr>currentAge = 35, monthlyContribution = 0, currentAssets = 1000, retirementAge = 36\<rparr>)
     = \<lparr>minusSign = True, wholeEuros = 36\<rparr>"
  by (simp add: comparison_def input_defs const_defs Math_pow_def ctaTaxSavings_def
        formatCurrency_def)

text \<open>
  C8, amended. For every comparison input the tax advantage is computed in a fixed
  order, as the ETF vehicle's total tax minus the Debeka vehicle's total tax, and may be
  negative. The tax-advantage alert card is rendered only when that figure is strictly
  positive, and then displays it rounded to whole euros, without a minus sign: the alert
  never displays a negative saving. It can display a saving of 0 euros, for a positive
  figure below 0.50: with a contribution of 300, assets of 23150 and one year the
  figure is about 0.33.
\<close>

theorem tax_advantage_fixed_order:
  "taxAdvantage (comparison inputs) =
     totalTax (etf (comparison inputs)) - totalTax (debeka (comparison inputs))
   \<and> (case taxAdvantageAlert (comparison inputs) of
        None \<Rightarrow> taxAdvantage (comparison inputs) \<le> 0
      | Some shown \<Rightarrow>
          0 < taxAdvantage (comparison inputs)
          \<and> shown = formatCurrency (taxAdvantage (comparison inputs))
          \<and> minusSign shown = False
          \<and> real (wholeEuros shown) \<le> taxAdvantage (comparison inputs) + 1 / 2
          \<and> taxAdvantage (comparison inputs) - 1 / 2 < real (wholeEuros shown))
   \<and> taxAdvantageAlert (comparison
        \<lparr>currentAge = 35, monthlyContribution = 300, currentAssets = 23150, retirementAge = 36\<rparr>)
       = Some \<lparr>minusSign = False, wholeEuros = 0\<rparr>"
proof -
  have fixed: "taxAdvantage (comparison inputs) =
      totalTax (etf (comparison inputs)) - totalTax (debeka (comparison inputs))"
    by (simp add: comparison_def taxAdvantage_of_def)
  have alert: "(case taxAdvantageAlert (comparison inputs) of
        None \<Rightarrow> taxAdvantage (comparison inputs) \<le> 0
      | Some shown \<Rightarrow>
          0 < taxAdvantage (comparison inputs)
          \<and> shown = formatCurrency (taxAdvantage (comparison inputs))
          \<and> minusSign shown = False
          \<and> real (wholeEuros shown) \<le> taxAdvantage (comparison inputs) + 1 / 2
          \<and> taxAdvantage (comparison inputs) - 1 / 2 < real (wholeEuros shown))"
  proof (cases "0 < taxAdvantage (comparison inputs)")
    case True
    then have "0 \<le> \<lfloor>taxAdvantage (comparison inputs) + 1 / 2\<rfloor>"
      by simp
    then have "real (nat \<lfloor>taxAdvantage (comparison inputs) + 1 / 2\<rfloor>)
        = of_int \<lfloor>taxAdvantage (comparison inputs) + 1 / 2\<rfloor>"
      by simp
    then show ?thesis
      using True by (simp add: taxAdvantageAlert_def formatCurrency_def) linarith
  next
    case False
    then show ?thesis by (simp add: taxAdvantageAlert_def)
  qed
  have zero: "taxAdvantageAlert (comparison
        \<lparr>currentAge = 35, monthlyContribution = 300, currentAssets = 23150, retirementAge = 36\<rparr>)
       = Some \<lparr>minusSign = False, wholeEuros = 0\<rparr>"
    by (simp add: taxAdvantageAlert_def formatCurrency_def comparison_def input_defs const_defs
          Math_pow_def power_divide)
  from fixed alert zero show ?thesis by blast
qed

subsection \<open>Division by zero, overflow and \<^verbatim>\<open>NaN\<close>\<close>

lemma js_number_Finite: "\<bar>x\<bar> < overflow_bound \<Longrightarrow> js_number x = Finite x"
  by (auto simp add: js_number_def)

lemma below_overflow_bound:
  assumes "\<bar>x\<bar> \<le> 2 ^ k" and "k < 1024"
  shows "\<bar>x\<bar> < overflow_bound"
proof -
  have "(2::real) ^ k < 2 ^ 1024"
    using assms(2) by (intro power_strict_increasing) simp_all
  then show ?thesis
    using assms(1) by (simp only: overflow_bound_def)
qed

lemma js_add_Finite:
  "\<bar>x + y\<bar> \<le> 2 ^ k \<Longrightarrow> k < 1024 \<Longrightarrow> js_add (Finite x) (Finite y) = Finite (x + y)"
  by (simp add: js_number_Finite below_overflow_bound)

lemma js_sub_Finite:
  "\<bar>x - y\<bar> \<le> 2 ^ k \<Longrightarrow> k < 1024 \<Longrightarrow> js_sub (Finite x) (Finite y) = Finite (x - y)"
  by (simp add: js_sub_def js_number_Finite below_overflow_bound)

lemma js_mul_Finite:
  "\<bar>x * y\<bar> \<le> 2 ^ k \<Longrightarrow> k < 1024 \<Longrightarrow> js_mul (Finite x) (Finite y) = Finite (x * y)"
  by (simp add: js_number_Finite below_overflow_bound)

lemma js_div_Finite:
  assumes "y \<noteq> 0" and "\<bar>x / y\<bar> \<le> 2 ^ k" and "k < 1024"
  shows "js_div (Finite x) (Finite y) = Finite (x / y)"
proof -
  have "js_number (x / y) = Finite (x / y)"
    using assms(2,3) by (intro js_number_Finite below_overflow_bound)
  then show ?thesis using assms(1) by simp
qed

lemma Math_pow_js_Finite:
  assumes "0 < b" and "b powr e \<le> 2 ^ k" and "k < 1024"
  shows "Math_pow_js (Finite b) (Finite e) = Finite (b powr e)"
proof -
  have "\<bar>b powr e\<bar> \<le> 2 ^ k" using assms by simp
  then have "js_number (b powr e) = Finite (b powr e)"
    using assms(3) by (intro js_number_Finite below_overflow_bound)
  then show ?thesis using assms(1) by simp
qed

lemma powr_le_2_100:
  fixes c y :: real
  assumes "1 \<le> c" and "c \<le> 2" and "y \<le> 100"
  shows "c powr y \<le> 2 ^ 100"
proof -
  have "c powr y \<le> c powr 100"
    using assms by (intro powr_mono) auto
  also have "\<dots> \<le> 2 powr 100"
    using assms by (intro powr_mono2) auto
  also have "\<dots> = 2 ^ 100"
    by simp
  finally show ?thesis .
qed

lemma abs_mult_le_power:
  fixes x y :: real
  assumes "\<bar>x\<bar> \<le> 2 ^ j" and "\<bar>y\<bar> \<le> 2 ^ k"
  shows "\<bar>x * y\<bar> \<le> 2 ^ (j + k)"
  unfolding abs_mult power_add using assms by (intro mult_mono) simp_all

lemma abs_add_le_power:
  fixes x y :: real
  assumes "\<bar>x\<bar> \<le> 2 ^ j" and "\<bar>y\<bar> \<le> 2 ^ k" and "j \<le> n" and "k \<le> n"
  shows "\<bar>x + y\<bar> \<le> 2 ^ Suc n"
proof -
  have "(2::real) ^ j \<le> 2 ^ n" "(2::real) ^ k \<le> 2 ^ n"
    using assms by (simp_all add: power_increasing)
  then have "\<bar>x\<bar> \<le> 2 ^ n" "\<bar>y\<bar> \<le> 2 ^ n"
    using assms by linarith+
  then have "\<bar>x + y\<bar> \<le> 2 ^ n + 2 ^ n"
    by linarith
  then show ?thesis by simp
qed

lemma future_value_js_Finite:
  fixes g mr y a m :: real
  assumes g: "0 < g" "g \<le> 1"
    and mr: "1 / 2 ^ 11 \<le> mr" "(1 + mr) ^ 12 \<le> 2"
    and y: "\<bar>y\<bar> \<le> 100" and a: "\<bar>a\<bar> \<le> 2 ^ 333" and m: "\<bar>m\<bar> \<le> 2 ^ 333"
  shows "js_add
           (js_mul (Finite a) (Math_pow_js (js_add (Finite 1) (Finite g)) (Finite y)))
           (js_mul (Finite m)
              (js_div
                 (js_sub (Math_pow_js (js_add (Finite 1) (Finite mr)) (js_mul (Finite y) (Finite 12)))
                    (Finite 1))
                 (Finite mr)))
         = Finite (a * (1 + g) powr y + m * (((1 + mr) powr (y * 12) - 1) / mr))
       \<and> \<bar>a * (1 + g) powr y + m * (((1 + mr) powr (y * 12) - 1) / mr)\<bar> \<le> 2 ^ 445"
proof -
  have mrpos: "0 < mr"
    using mr(1) by (rule less_le_trans [rotated]) simp
  define P1 where "P1 = (1 + g) powr y"
  define P2 where "P2 = (1 + mr) powr (y * 12)"
  define Q where "Q = (P2 - 1) / mr"
  have P1: "0 < P1" "P1 \<le> 2 ^ 100"
  proof -
    show "0 < P1" unfolding P1_def using g by simp
    show "P1 \<le> 2 ^ 100" unfolding P1_def using g y by (intro powr_le_2_100) auto
  qed
  have "P2 = ((1 + mr) powr 12) powr y"
    unfolding P2_def by (simp add: powr_powr mult.commute)
  also have "(1 + mr) powr 12 = (1 + mr) ^ 12"
    using mrpos by simp
  finally have P2_eq: "P2 = ((1 + mr) ^ 12) powr y" .
  have one: "1 \<le> (1 + mr) ^ 12"
    using mrpos by (intro one_le_power) simp
  have P2: "0 < P2" "P2 \<le> 2 ^ 100"
  proof -
    show "0 < P2" unfolding P2_def using mrpos by simp
    show "P2 \<le> 2 ^ 100" unfolding P2_eq using one mr(2) y by (intro powr_le_2_100) auto
  qed
  have P2m: "\<bar>P2 - 1\<bar> \<le> 2 ^ 100"
  proof -
    have "(1::real) \<le> 2 ^ 100" by (rule one_le_power) simp
    then show ?thesis using P2 by linarith
  qed
  have inv: "\<bar>1 / mr\<bar> \<le> 2 ^ 11"
  proof -
    have "1 / mr \<le> 1 / (1 / 2 ^ 11)"
      using mr(1) by (intro divide_left_mono) simp_all
    then show ?thesis using mrpos by simp
  qed
  have Q: "\<bar>Q\<bar> \<le> 2 ^ 111"
  proof -
    have "Q = (P2 - 1) * (1 / mr)" unfolding Q_def by simp
    then show ?thesis using abs_mult_le_power [OF P2m inv] by simp
  qed
  have P1a: "\<bar>P1\<bar> \<le> 2 ^ 100" using P1 by simp
  have aP: "\<bar>a * P1\<bar> \<le> 2 ^ 433"
    using abs_mult_le_power [OF a P1a] by simp
  have mQ: "\<bar>m * Q\<bar> \<le> 2 ^ 444"
    using abs_mult_le_power [OF m Q] by simp
  have sum: "\<bar>a * P1 + m * Q\<bar> \<le> 2 ^ 445"
    using abs_add_le_power [OF aP mQ, of 444] by simp
  have e0: "js_add (Finite 1) (Finite g) = Finite (1 + g)"
    using g by (intro js_add_Finite [of _ _ 1]) simp_all
  have e1: "Math_pow_js (Finite (1 + g)) (Finite y) = Finite P1"
    unfolding P1_def using g P1(2) by (intro Math_pow_js_Finite [of _ _ 100]) (simp_all add: P1_def)
  have e2: "js_mul (Finite a) (Finite P1) = Finite (a * P1)"
    using aP by (rule js_mul_Finite) simp
  have e3: "js_add (Finite 1) (Finite mr) = Finite (1 + mr)"
  proof -
    have "1 + mr \<le> (1 + mr) ^ 12"
      using mrpos by (intro self_le_power) simp_all
    then have "\<bar>1 + mr\<bar> \<le> 2 ^ 1" using mr(2) mrpos by simp
    then show ?thesis by (rule js_add_Finite) simp
  qed
  have e4: "js_mul (Finite y) (Finite 12) = Finite (y * 12)"
  proof -
    have "\<bar>y * 12\<bar> \<le> 2 ^ 11" using y by simp
    then show ?thesis by (rule js_mul_Finite) simp
  qed
  have e5: "Math_pow_js (Finite (1 + mr)) (Finite (y * 12)) = Finite P2"
    unfolding P2_def using mrpos P2(2) by (intro Math_pow_js_Finite [of _ _ 100]) (simp_all add: P2_def)
  have e6: "js_sub (Finite P2) (Finite 1) = Finite (P2 - 1)"
    using P2m by (rule js_sub_Finite) simp
  have e7: "js_div (Finite (P2 - 1)) (Finite mr) = Finite Q"
    unfolding Q_def using mrpos Q by (intro js_div_Finite [of _ _ 111]) (simp_all add: Q_def)
  have e8: "js_mul (Finite m) (Finite Q) = Finite (m * Q)"
    using mQ by (rule js_mul_Finite) simp
  have e9: "js_add (Finite (a * P1)) (Finite (m * Q)) = Finite (a * P1 + m * Q)"
    using sum by (rule js_add_Finite) simp
  have "js_add
           (js_mul (Finite a) (Math_pow_js (js_add (Finite 1) (Finite g)) (Finite y)))
           (js_mul (Finite m)
              (js_div
                 (js_sub (Math_pow_js (js_add (Finite 1) (Finite mr)) (js_mul (Finite y) (Finite 12)))
                    (Finite 1))
                 (Finite mr)))
         = Finite (a * P1 + m * Q)"
    by (simp only: e0 e1 e2 e3 e4 e5 e6 e7 e8 e9)
  then show ?thesis
    using sum unfolding P1_def P2_def Q_def by blast
qed


lemma js_number_Finite_iff:
  "- overflow_bound < x \<Longrightarrow> x < overflow_bound \<Longrightarrow> js_number x = Finite x"
  by (simp add: js_number_def)

lemma overflow_bound_gt: "2 ^ 460 < overflow_bound"
  unfolding overflow_bound_def by (intro power_strict_increasing) simp_all

lemma constants_js:
  "debekaNetGrowth_js = Finite debekaNetGrowth"
  "debekaMonthlyReturn_js = Finite debekaMonthlyReturn"
  "etfGrossReturn_js = Finite etfGrossReturn"
  "etfTaxOnGains_js = Finite etfTaxOnGains"
  "etfNetGrowth_js = Finite etfNetGrowth"
  "etfMonthlyReturn_js = Finite etfMonthlyReturn"
  "klassischNetGrowth_js = Finite klassischNetGrowth"
  "klassischMonthlyReturn_js = Finite klassischMonthlyReturn"
  using overflow_bound_gt
  by (simp_all add: debekaNetGrowth_js_def debekaMonthlyReturn_js_def etfGrossReturn_js_def
        etfAnnualGains_js_def etfTaxOnGains_js_def etfNetGrowth_js_def etfMonthlyReturn_js_def
        klassischNetGrowth_js_def klassischMonthlyReturn_js_def const_defs js_sub_def
        js_number_Finite_iff)


lemma amount_bound:
  fixes x :: real
  assumes "\<bar>x\<bar> \<le> 10 ^ 100"
  shows "\<bar>x\<bar> \<le> 2 ^ 333"
proof -
  have "(10::real) ^ 100 \<le> 2 ^ 333" by simp
  then show ?thesis using assms by linarith
qed

lemma years_of_js_Finite:
  assumes "\<bar>retirementAge inputs - currentAge inputs\<bar> \<le> 100"
  shows "years_of_js inputs = Finite (years_of inputs)"
proof -
  have "\<bar>retirementAge inputs - currentAge inputs\<bar> \<le> 2 ^ 7"
    using assms by simp
  then show ?thesis
    unfolding years_of_js_def years_of_def by (rule js_sub_Finite) simp
qed

lemma futureValues_js_Finite:
  assumes y: "\<bar>retirementAge inputs - currentAge inputs\<bar> \<le> 100"
    and a: "\<bar>currentAssets inputs\<bar> \<le> 10 ^ 100"
    and m: "\<bar>monthlyContribution inputs\<bar> \<le> 10 ^ 100"
  shows "debekaFutureValue_js inputs = Finite (debekaFutureValue inputs)"
    and "\<bar>debekaFutureValue inputs\<bar> \<le> 2 ^ 445"
    and "etfFutureValue_js inputs = Finite (etfFutureValue inputs)"
    and "\<bar>etfFutureValue inputs\<bar> \<le> 2 ^ 445"
    and "klassischFutureValue_js inputs = Finite (klassischFutureValue inputs)"
    and "\<bar>klassischFutureValue inputs\<bar> \<le> 2 ^ 445"
proof -
  have y': "\<bar>years_of inputs\<bar> \<le> 100" using y by (simp add: years_of_def)
  note yj = years_of_js_Finite [OF y]
  note a' = amount_bound [OF a] and m' = amount_bound [OF m]
  have d: "0 < debekaNetGrowth" "debekaNetGrowth \<le> 1"
      "1 / 2 ^ 11 \<le> debekaMonthlyReturn" "(1 + debekaMonthlyReturn) ^ 12 \<le> 2"
    by (simp_all add: const_defs power_divide)
  have e: "0 < etfNetGrowth" "etfNetGrowth \<le> 1"
      "1 / 2 ^ 11 \<le> etfMonthlyReturn" "(1 + etfMonthlyReturn) ^ 12 \<le> 2"
    by (simp_all add: const_defs power_divide)
  have k: "0 < klassischNetGrowth" "klassischNetGrowth \<le> 1"
      "1 / 2 ^ 11 \<le> klassischMonthlyReturn" "(1 + klassischMonthlyReturn) ^ 12 \<le> 2"
    by (simp_all add: const_defs power_divide)
  from future_value_js_Finite [OF d y' a' m']
  show "debekaFutureValue_js inputs = Finite (debekaFutureValue inputs)"
    and "\<bar>debekaFutureValue inputs\<bar> \<le> 2 ^ 445"
    unfolding debekaFutureValue_js_def debekaFutureValue_def months_of_js_def months_of_def
      constants_js yj Math_pow_def
    by blast+
  from future_value_js_Finite [OF e y' a' m']
  show "etfFutureValue_js inputs = Finite (etfFutureValue inputs)"
    and "\<bar>etfFutureValue inputs\<bar> \<le> 2 ^ 445"
    unfolding etfFutureValue_js_def etfFutureValue_def months_of_js_def months_of_def
      constants_js yj Math_pow_def
    by blast+
  from future_value_js_Finite [OF k y' a' m']
  show "klassischFutureValue_js inputs = Finite (klassischFutureValue inputs)"
    and "\<bar>klassischFutureValue inputs\<bar> \<le> 2 ^ 445"
    unfolding klassischFutureValue_js_def klassischFutureValue_def months_of_js_def months_of_def
      constants_js yj Math_pow_def
    by blast+
qed

lemma comparison_js_Finite:
  assumes y: "\<bar>retirementAge inputs - currentAge inputs\<bar> \<le> 100"
    and a: "\<bar>currentAssets inputs\<bar> \<le> 10 ^ 100"
    and m: "\<bar>monthlyContribution inputs\<bar> \<le> 10 ^ 100"
  shows "comparison_js inputs = finite_result (comparison inputs)"
proof -
  note fv = futureValues_js_Finite [OF y a m]
  note yj = years_of_js_Finite [OF y]
  have o: "2 ^ 460 < overflow_bound" by (rule overflow_bound_gt)
  have by': "- 100 \<le> years_of inputs" "years_of inputs \<le> 100"
    using y by (simp_all add: years_of_def)
  have ba: "- (2 ^ 333) \<le> currentAssets inputs" "currentAssets inputs \<le> 2 ^ 333"
    using amount_bound [OF a] by linarith+
  have bm: "- (2 ^ 333) \<le> monthlyContribution inputs" "monthlyContribution inputs \<le> 2 ^ 333"
    using amount_bound [OF m] by linarith+
  have bd: "- (2 ^ 445) \<le> debekaFutureValue inputs" "debekaFutureValue inputs \<le> 2 ^ 445"
    using fv(2) by linarith+
  have be: "- (2 ^ 445) \<le> etfFutureValue inputs" "etfFutureValue inputs \<le> 2 ^ 445"
    using fv(4) by linarith+
  have bk: "- (2 ^ 445) \<le> klassischFutureValue inputs" "klassischFutureValue inputs \<le> 2 ^ 445"
    using fv(6) by linarith+
  have mj: "months_of_js inputs = Finite (months_of inputs)"
    using by' o by (simp add: months_of_js_def months_of_def yj js_number_Finite_iff)
  have ay: "\<bar>years_of inputs\<bar> \<le> 2 ^ 7" using by' by simp
  have an: "\<bar>months_of inputs\<bar> \<le> 2 ^ 11" using by' by (simp add: months_of_def)
  note am = amount_bound [OF m] and aa = amount_bound [OF a]
  have tc: "totalContributions_of_js inputs = Finite (totalContributions_of inputs)"
  proof -
    have p: "\<bar>monthlyContribution inputs * months_of inputs\<bar> \<le> 2 ^ (333 + 11)"
      by (rule abs_mult_le_power [OF am an])
    then have 1: "js_mul (Finite (monthlyContribution inputs)) (Finite (months_of inputs))
        = Finite (monthlyContribution inputs * months_of inputs)"
      by (rule js_mul_Finite) simp
    have "\<bar>monthlyContribution inputs * months_of inputs + currentAssets inputs\<bar>
        \<le> 2 ^ Suc (333 + 11)"
      by (rule abs_add_le_power [OF p aa]) simp_all
    then have 2: "js_add (Finite (monthlyContribution inputs * months_of inputs))
          (Finite (currentAssets inputs))
        = Finite (monthlyContribution inputs * months_of inputs + currentAssets inputs)"
      by (rule js_add_Finite) simp
    show ?thesis
      unfolding totalContributions_of_js_def totalContributions_of_def mj 1 2 ..
  qed
  have et: "etfTaxDuringAccumulation_js inputs = Finite (etfTaxDuringAccumulation inputs)"
    and bt: "\<bar>etfTaxDuringAccumulation inputs\<bar> \<le> 2 ^ 348"
  proof -
    have c12: "\<bar>12 :: real\<bar> \<le> 2 ^ 4" by simp
    have ct: "\<bar>etfTaxOnGains\<bar> \<le> 2 ^ 0" by (simp add: const_defs)
    have cg: "\<bar>1 / etfGrossReturn\<bar> \<le> 2 ^ 4" by (simp add: const_defs)
    have g0: "etfGrossReturn \<noteq> 0" by (simp add: const_defs)
    have p1: "\<bar>monthlyContribution inputs * 12\<bar> \<le> 2 ^ (333 + 4)"
      by (rule abs_mult_le_power [OF am c12])
    have p2: "\<bar>monthlyContribution inputs * 12 * years_of inputs\<bar> \<le> 2 ^ (333 + 4 + 7)"
      by (rule abs_mult_le_power [OF p1 ay])
    have p3: "\<bar>monthlyContribution inputs * 12 * years_of inputs * etfTaxOnGains\<bar>
        \<le> 2 ^ (333 + 4 + 7 + 0)"
      by (rule abs_mult_le_power [OF p2 ct])
    have p4: "\<bar>monthlyContribution inputs * 12 * years_of inputs * etfTaxOnGains
          * (1 / etfGrossReturn)\<bar> \<le> 2 ^ (333 + 4 + 7 + 0 + 4)"
      by (rule abs_mult_le_power [OF p3 cg])
    then have p4': "\<bar>monthlyContribution inputs * 12 * years_of inputs * etfTaxOnGains
          / etfGrossReturn\<bar> \<le> 2 ^ 348"
      by simp
    have 1: "js_mul (Finite (monthlyContribution inputs)) (Finite 12)
        = Finite (monthlyContribution inputs * 12)"
      using p1 by (rule js_mul_Finite) simp
    have 2: "js_mul (Finite (monthlyContribution inputs * 12)) (Finite (years_of inputs))
        = Finite (monthlyContribution inputs * 12 * years_of inputs)"
      using p2 by (rule js_mul_Finite) simp
    have 3: "js_mul (Finite (monthlyContribution inputs * 12 * years_of inputs))
          (Finite etfTaxOnGains)
        = Finite (monthlyContribution inputs * 12 * years_of inputs * etfTaxOnGains)"
      using p3 by (rule js_mul_Finite) simp
    have 4: "js_div (Finite (monthlyContribution inputs * 12 * years_of inputs * etfTaxOnGains))
          (Finite etfGrossReturn)
        = Finite (monthlyContribution inputs * 12 * years_of inputs * etfTaxOnGains
            / etfGrossReturn)"
      using g0 p4' by (rule js_div_Finite) simp
    show "etfTaxDuringAccumulation_js inputs = Finite (etfTaxDuringAccumulation inputs)"
      unfolding etfTaxDuringAccumulation_js_def etfTaxDuringAccumulation_def yj constants_js
        1 2 3 4 ..
    show "\<bar>etfTaxDuringAccumulation inputs\<bar> \<le> 2 ^ 348"
      unfolding etfTaxDuringAccumulation_def by (rule p4')
  qed
  have bt': "- (2 ^ 348) \<le> etfTaxDuringAccumulation inputs"
      "etfTaxDuringAccumulation inputs \<le> 2 ^ 348"
    using bt by linarith+
  have debeka: "debeka_js (comparison_js inputs) = finite_vehicle (debeka (comparison inputs))"
    using bd o
    by (simp add: comparison_js_def comparison_def finite_vehicle_def fv constants_js
          debekaNetMonthlyPension_js_def debekaGrossMonthlyPension_js_def debekaTax_js_def
          debekaTaxableAmount_js_def debeka30YearTax_js_def
          debekaNetMonthlyPension_def debekaGrossMonthlyPension_def debekaTax_def
          debekaTaxableAmount_def debeka30YearTax_def const_defs
          js_sub_def js_number_Finite_iff)
  have etf: "etf_js (comparison_js inputs) = finite_vehicle (etf (comparison inputs))"
    using be bt' o
    by (simp add: comparison_js_def comparison_def finite_vehicle_def fv et
          etfNetMonthlyPension_js_def totalEtfTax_js_def etfNetMonthlyPension_def totalEtfTax_def
          etfNetGrowth_js_def etfGrossReturn_js_def etfTaxOnGains_js_def etfAnnualGains_js_def
          const_defs js_sub_def js_number_Finite_iff)
  have klassisch:
    "klassisch_js (comparison_js inputs) = finite_vehicle (klassisch (comparison inputs))"
    using bk o
    by (simp add: comparison_js_def comparison_def finite_vehicle_def fv
          klassischNetMonthlyPension_js_def klassischGrossMonthlyPension_js_def klassischTax_js_def
          klassischTaxableAmount_js_def klassischNetGrowth_js_def
          klassischNetMonthlyPension_def klassischGrossMonthlyPension_def klassischTax_def
          klassischTaxableAmount_def const_defs js_sub_def js_number_Finite_iff)
  have ta: "taxAdvantage_js (comparison_js inputs) = Finite (taxAdvantage (comparison inputs))"
    using bd bt' o
    by (simp add: comparison_js_def comparison_def fv et taxAdvantage_of_js_def
          taxAdvantage_of_def totalEtfTax_js_def totalEtfTax_def
          debekaGrossMonthlyPension_js_def debekaTax_js_def
          debekaTaxableAmount_js_def debeka30YearTax_js_def
          debekaGrossMonthlyPension_def debekaTax_def
          debekaTaxableAmount_def debeka30YearTax_def const_defs
          js_sub_def js_number_Finite_iff)
  have rest: "totalContributions_js (comparison_js inputs)
        = Finite (totalContributions (comparison inputs))"
      "years_js (comparison_js inputs) = Finite (years (comparison inputs))"
    by (simp_all add: comparison_js_def comparison_def tc yj)
  have "comparison_js inputs =
      \<lparr> debeka_js = debeka_js (comparison_js inputs),
        etf_js = etf_js (comparison_js inputs),
        klassisch_js = klassisch_js (comparison_js inputs),
        taxAdvantage_js = taxAdvantage_js (comparison_js inputs),
        totalContributions_js = totalContributions_js (comparison_js inputs),
        years_js = years_js (comparison_js inputs) \<rparr>"
    by simp
  then show ?thesis
    unfolding debeka etf klassisch ta rest by (simp add: finite_result_def)
qed


lemma debeka_power_overflows: "overflow_bound \<le> (1047 / 1000 :: real) powr 15965"
proof -
  have four: "(4::real) \<le> (1047 / 1000) ^ 31"
    by (simp add: power_divide)
  have "overflow_bound \<le> (4::real) ^ 515"
    unfolding overflow_bound_def by simp
  also have "\<dots> \<le> ((1047 / 1000) ^ 31) ^ 515"
    using four by (rule power_mono) simp
  also have "\<dots> = (1047 / 1000 :: real) ^ (31 * 515)"
    by (rule power_mult [symmetric])
  also have "\<dots> = (1047 / 1000 :: real) powr real (31 * 515 :: nat)"
    by (rule powr_realpow [symmetric]) simp
  also have "real (31 * 515 :: nat) = 15965"
    by simp
  finally show ?thesis .
qed

text \<open>
  C10, as stated: the divisors are positive constants, so for every input the comparison
  never divides by zero and always yields well-defined numbers. The first half holds;
  the second does not follow from it. With the page's default contribution of 300 and
  assets of 0, and a retirement age of 16000 typed in, \<^verbatim>\<open>Math.pow(1.047, 15965)\<close>
  overflows to \<^verbatim>\<open>Infinity\<close>, \<open>0 * Infinity\<close> is \<^verbatim>\<open>NaN\<close>, and Debeka's final capital is
  \<^verbatim>\<open>NaN\<close>.
\<close>

theorem long_horizon_gives_NaN:
  "finalCapital_js (debeka_js (comparison_js
      \<lparr>currentAge = 35, monthlyContribution = 300, currentAssets = 0, retirementAge = 16000\<rparr>))
     = NaN"
proof -
  let ?i = "\<lparr>currentAge = 35, monthlyContribution = 300, currentAssets = 0,
              retirementAge = 16000\<rparr>"
  have o: "2 ^ 460 < overflow_bound" by (rule overflow_bound_gt)
  have y: "years_of_js ?i = Finite 15965"
    using o by (simp add: years_of_js_def js_sub_def js_number_Finite_iff)
  have b: "js_add (Finite 1) debekaNetGrowth_js = Finite (1047 / 1000)"
    using o by (simp add: constants_js const_defs js_number_Finite_iff)
  have p: "Math_pow_js (Finite (1047 / 1000)) (Finite 15965) = PosInfinity"
    using debeka_power_overflows by (simp add: js_number_def del: powr_numeral)
  have "debekaFutureValue_js ?i = NaN"
    unfolding debekaFutureValue_js_def y b p by simp
  then show ?thesis
    by (simp add: comparison_js_def)
qed

text \<open>
  C10, amended. Every division of the comparison has a strictly positive constant
  divisor that does not depend on the input: the literal 12,
  \<open>debekaMonthlyReturn = (0.06 - 0.013) / 12\<close>,
  \<open>etfMonthlyReturn = ((0.07 - 0.003) * (1 - 0.26375)) / 12\<close>,
  \<open>klassischMonthlyReturn = (0.02 - 0.01) / 12\<close> and \<open>etfGrossReturn = 0.07 - 0.003\<close>; so
  the comparison never divides by zero, though it has no zero-rate guard. Its results
  are finite numbers (no \<^verbatim>\<open>Infinity\<close>, no \<^verbatim>\<open>NaN\<close>) whenever nothing overflows, in
  particular for every input with at most 100 years between the two ages and amounts
  of magnitude at most \<open>10^100\<close>: there every figure is the one of the real-number
  reading. For a long enough horizon \<^verbatim>\<open>Math.pow\<close> overflows and results can be
  \<^verbatim>\<open>NaN\<close>.
\<close>

theorem divisors_positive_results_finite:
  "list_all positive_finite comparison_divisors
   \<and> debekaMonthlyReturn_js = Finite ((0.06 - 0.013) / 12)
   \<and> etfMonthlyReturn_js = Finite (((0.07 - 0.003) * (1 - 0.26375)) / 12)
   \<and> klassischMonthlyReturn_js = Finite ((0.02 - 0.01) / 12)
   \<and> etfGrossReturn_js = Finite (0.07 - 0.003)
   \<and> (\<bar>retirementAge inputs - currentAge inputs\<bar> \<le> 100
        \<and> \<bar>currentAssets inputs\<bar> \<le> 10 ^ 100
        \<and> \<bar>monthlyContribution inputs\<bar> \<le> 10 ^ 100 \<longrightarrow>
        comparison_js inputs = finite_result (comparison inputs))"
proof -
  have d: "list_all positive_finite comparison_divisors"
    by (simp add: comparison_divisors_def constants_js const_defs)
  have c: "debekaMonthlyReturn_js = Finite ((0.06 - 0.013) / 12)"
      "etfMonthlyReturn_js = Finite (((0.07 - 0.003) * (1 - 0.26375)) / 12)"
      "klassischMonthlyReturn_js = Finite ((0.02 - 0.01) / 12)"
      "etfGrossReturn_js = Finite (0.07 - 0.003)"
    by (simp_all add: constants_js const_defs)
  from d c comparison_js_Finite [of inputs] show ?thesis by blast
qed

theorem divisors_positive_results_finite_witness:
  "\<bar>67 - 35 :: real\<bar> \<le> 100 \<and> \<bar>0 :: real\<bar> \<le> 10 ^ 100 \<and> \<bar>300 :: real\<bar> \<le> 10 ^ 100
   \<and> comparison_js
        \<lparr>currentAge = 35, monthlyContribution = 300, currentAssets = 0, retirementAge = 67\<rparr>
     = finite_result (comparison
        \<lparr>currentAge = 35, monthlyContribution = 300, currentAssets = 0, retirementAge = 67\<rparr>)"
  using divisors_positive_results_finite
    [of "\<lparr>currentAge = 35, monthlyContribution = 300, currentAssets = 0, retirementAge = 67\<rparr>"]
  by simp

end
